theory Spec2Isabelle
  imports Main "HOL-Library.List_Lexorder" "HOL-Library.Char_ord" "HOL-Library.Product_Lexorder"
begin

section \<open>Data model of the sync engine (controller/sync.go)\<close>

text \<open>
  Go strings are compared bytewise and lexicographically; \<open>string\<close> with the
  lexicographic order on lists of characters is the same order.
\<close>

text \<open>A Go \<open>error\<close> value: its text (\<open>err.Error()\<close>) and whether
  \<open>apierr.IsNotFound\<close> holds of it.\<close>

datatype error = Err (IsNotFound: bool) (Error: string)

text \<open>The content of an \<open>unstructured.Unstructured\<close>: a tree of maps with strings at
  the leaves the code reads; every other JSON value is \<open>JOther\<close>.\<close>

datatype json = JString string | JMap "string \<Rightarrow> json option" | JNull | JOther

record GroupVersionKind =
  Group :: string
  Version :: string
  gvkKind :: string

text \<open>
  An object of the cluster or of the desired manifests. The accessors of the Kubernetes
  library that sync.go calls (\<open>GetName\<close>, \<open>GetKind\<close>, \<open>GetNamespace\<close>,
  \<open>GroupVersionKind\<close>) are fields; \<open>Object\<close> is the map sync.go reads with
  \<open>unstructured.NestedString\<close>.
\<close>

record Unstructured =
  Object :: "string \<Rightarrow> json option"
  GetName :: string
  GetKind :: string
  GetNamespace :: string
  GroupVersionKind :: GroupVersionKind

datatype ResourceSyncStatus =
  ResourceDetailsSynced
| ResourceDetailsSyncedAndPruned
| ResourceDetailsSyncFailed
| ResourceDetailsPruningRequired

record ResourceDetails =
  Name :: string
  Kind :: string
  Namespace :: string
  Message :: string
  Status :: ResourceSyncStatus

text \<open>syncTask holds the live and the target object; a nil pointer is \<open>None\<close>.\<close>

record syncTask =
  liveObj :: "Unstructured option"
  targetObj :: "Unstructured option"

subsection \<open>The operation and its result\<close>

datatype OperationPhase =
  OperationRunning | OperationTerminating | OperationFailed | OperationError | OperationSucceeded

datatype HookType = HookTypePreSync | HookTypeSync | HookTypePostSync | HookTypeSyncFail

record HookStatus =
  hookName :: string
  Type :: HookType

record SyncOperationResult =
  Resources :: "ResourceDetails list"
  Hooks :: "HookStatus list"
  Revision :: string

record ComponentParameter =
  Component :: string
  paramName :: string
  paramValue :: string

record SyncOperationResource =
  resGroup :: string
  resKind :: string
  resName :: string

record SyncStrategyApply =
  Force :: bool

datatype SyncStrategyHook = SyncStrategyHook

record SyncStrategy =
  Apply :: "SyncStrategyApply option"
  Hook :: "SyncStrategyHook option"

text \<open>A nil slice is \<open>None\<close>: generateSyncTasks tells it from an empty one.\<close>

record SyncOperation =
  opRevision :: string
  Prune :: bool
  DryRun :: bool
  SyncStrategy :: "SyncStrategy option"
  opResources :: "SyncOperationResource list option"
  ParameterOverrides :: "ComponentParameter list"

record Operation =
  Sync :: "SyncOperation option"

record OperationState =
  Operation :: Operation
  Phase :: OperationPhase
  StateMessage :: string
  SyncResult :: "SyncOperationResult option"

subsection \<open>The cluster as a trace of calls\<close>

text \<open>
  Every call that leaves the process is recorded, the calls of the cluster with their
  answers. The answer to a call is a function of the calls made before it and of the
  arguments, which covers every deterministic environment. The order in which the
  goroutines of one wave make their calls is the order of the calls in the trace.
\<close>

datatype event =
  ApplyResourceCall Unstructured string bool bool "error + string"
| DeleteResourceCall Unstructured string "error option"
| ServerResourceCall GroupVersionKind "error + bool"
| CompareAppStateCall string "ComponentParameter list"
| GetClusterCall string
| GetAppProjectCall string
| PersistDeploymentInfoCall string "ComponentParameter list"
| HookCall string

record Kubectl =
  ApplyResource :: "event list \<Rightarrow> Unstructured \<Rightarrow> string \<Rightarrow> bool \<Rightarrow> bool \<Rightarrow> error + string"
  DeleteResource :: "event list \<Rightarrow> Unstructured \<Rightarrow> string \<Rightarrow> error option"

text \<open>
  The project of the application. The type and its method \<open>IsResourcePermitted\<close> are
  declared outside sync.go; the policy is the predicate on group, kind and namespaced-ness
  that the method computes.
\<close>

record AppProject =
  projName :: string
  IsResourcePermitted :: "string \<Rightarrow> string \<Rightarrow> bool \<Rightarrow> bool"

text \<open>A resource state with the results of unmarshalling its live and target object.\<close>

record ResourceState =
  LiveObject :: "error + Unstructured option"
  TargetObject :: "error + Unstructured option"

record ManifestResponse =
  manifestRevision :: string
  Params :: "ComponentParameter list"

datatype ComparisonStatus = ComparisonStatusSynced | ComparisonStatusOutOfSync | ComparisonStatusUnknown

record ComparisonResult =
  compStatus :: ComparisonStatus
  compRevision :: string

text \<open>
  The sync context. \<open>syncRes\<close> and \<open>opState.SyncResult\<close> point to one object in the
  source; here \<open>syncRes\<close> is that object, and of \<open>opState\<close> the context reads and writes
  the phase and the message only. \<open>disco\<close> is the discovery client: the answer of
  \<open>kube.ServerResourceForGroupVersionKind(sc.disco, gvk)\<close>, an error or whether the
  resource is namespaced. \<open>trace\<close> holds the calls made to the cluster so far.
\<close>

record syncContext =
  appName :: string
  proj :: AppProject
  comparison :: ComparisonResult
  resources :: "ResourceState list"
  kubectl :: Kubectl
  disco :: "event list \<Rightarrow> GroupVersionKind \<Rightarrow> error + bool"
  namespace :: string
  syncOp :: SyncOperation
  syncRes :: SyncOperationResult
  syncResources :: "SyncOperationResource list option"
  opState :: OperationState
  manifestInfo :: ManifestResponse
  trace :: "event list"

text \<open>
  Functions of the repository that sync.go calls and that are declared in other files:
  \<open>kube.IsCRD\<close>, \<open>isHook\<close>, \<open>ResourceSyncStatus.Successful\<close> and
  \<open>argo.ContainsSyncResource\<close>. They are parameters of the model.
\<close>

record helpers =
  IsCRD :: "Unstructured \<Rightarrow> bool"
  isHook :: "Unstructured \<Rightarrow> bool"
  Successful :: "ResourceSyncStatus \<Rightarrow> bool"
  ContainsSyncResource :: "string \<Rightarrow> GroupVersionKind \<Rightarrow> SyncOperationResource list \<Rightarrow> bool"

subsection \<open>setResourceDetails\<close>

text \<open>
  The loop over \<open>sc.syncRes.Resources\<close>: the first entry with the kind and the name of
  \<open>details\<close> is overwritten; when the loop ends without a match, \<open>details\<close> is
  appended.
\<close>

fun setResourceDetails :: "ResourceDetails \<Rightarrow> ResourceDetails list \<Rightarrow> ResourceDetails list" where
  "setResourceDetails details [] = [details]"
| "setResourceDetails details (res # rest) =
     (if Kind res = Kind details \<and> Name res = Name details
      then details # rest
      else res # setResourceDetails details rest)"

definition resKey :: "ResourceDetails \<Rightarrow> string \<times> string" where
  "resKey r = (Kind r, Name r)"

subsection \<open>pruneObject\<close>

text \<open>
  \<open>pruneObject\<close> returns the resource details and the trace, extended by the call of
  \<open>DeleteResource\<close> when the source makes it. The source fills in name, kind and
  namespace first and message and status in every branch.
\<close>

definition pruneObject ::
  "Kubectl \<Rightarrow> string \<Rightarrow> event list \<Rightarrow> Unstructured \<Rightarrow> bool \<Rightarrow> bool \<Rightarrow> ResourceDetails \<times> event list" where
  "pruneObject kc ns tr live prune dryRun =
     (let resDetails = (\<lambda>message status.
            \<lparr>Name = GetName live, Kind = GetKind live, Namespace = GetNamespace live,
             Message = message, Status = status\<rparr>)
      in if prune then
           if dryRun then
             (resDetails ''pruned (dry run)'' ResourceDetailsSyncedAndPruned, tr)
           else
             (let err = DeleteResource kc tr live ns;
                  tr' = tr @ [DeleteResourceCall live ns err]
              in case err of
                   Some e \<Rightarrow> (resDetails (Error e) ResourceDetailsSyncFailed, tr')
                 | None \<Rightarrow> (resDetails ''pruned'' ResourceDetailsSyncedAndPruned, tr'))
         else
           (resDetails ''ignored (requires pruning)'' ResourceDetailsPruningRequired, tr))"

text \<open>The calls of \<open>DeleteResource\<close> in a trace.\<close>

fun isDelete :: "event \<Rightarrow> bool" where
  "isDelete (DeleteResourceCall obj ns err) = True"
| "isDelete _ = False"

subsection \<open>applyObject, hasCRDOfGroupKind and doApplySync\<close>

text \<open>
  The target object of a task of \<open>createTasks\<close>, where \<open>targetObj\<close> is not nil, and
  the live object of a task of \<open>pruneTasks\<close>. Of the two objects of a syncTask at least
  one is not nil (the comment at the type); a task with neither makes the source panic,
  and the model says nothing about such a run.
\<close>

definition targetOf :: "syncTask \<Rightarrow> Unstructured" where
  "targetOf t = the (targetObj t)"

definition liveOf :: "syncTask \<Rightarrow> Unstructured" where
  "liveOf t = the (liveObj t)"

text \<open>applyObject performs a \<open>kubectl apply\<close> of a single resource.\<close>

definition applyStatus :: "error + string \<Rightarrow> ResourceSyncStatus" where
  "applyStatus r = (case r of Inl err \<Rightarrow> ResourceDetailsSyncFailed | Inr message \<Rightarrow> ResourceDetailsSynced)"

definition applyMessage :: "error + string \<Rightarrow> string" where
  "applyMessage r = (case r of Inl err \<Rightarrow> Error err | Inr message \<Rightarrow> message)"

definition applyObject ::
  "Kubectl \<Rightarrow> string \<Rightarrow> event list \<Rightarrow> Unstructured \<Rightarrow> bool \<Rightarrow> bool \<Rightarrow> ResourceDetails \<times> event list" where
  "applyObject kc ns tr tgt dryRun force =
     (let r = ApplyResource kc tr tgt ns dryRun force
      in (\<lparr>Name = GetName tgt, Kind = GetKind tgt, Namespace = ns,
           Message = applyMessage r, Status = applyStatus r\<rparr>,
          tr @ [ApplyResourceCall tgt ns dryRun force r]))"

text \<open>
  \<open>unstructured.NestedString\<close> of the Kubernetes library returns the value, whether it was
  found and an error (a value on the path that is not a map, or a value at its end that is
  not a string). hasCRDOfGroupKind treats "not found" and an error alike, so the model
  returns the string when it is found without error and \<open>None\<close> otherwise.
\<close>

fun nestedField :: "json \<Rightarrow> string list \<Rightarrow> json option" where
  "nestedField v [] = Some v"
| "nestedField (JMap m) (field # path) =
     (case m field of None \<Rightarrow> None | Some v \<Rightarrow> nestedField v path)"
| "nestedField v (field # path) = None"

definition NestedString :: "(string \<Rightarrow> json option) \<Rightarrow> string list \<Rightarrow> string option" where
  "NestedString obj path =
     (case nestedField (JMap obj) path of Some (JString s) \<Rightarrow> Some s | _ \<Rightarrow> None)"

fun hasCRDOfGroupKind :: "helpers \<Rightarrow> syncTask list \<Rightarrow> string \<Rightarrow> string \<Rightarrow> bool" where
  "hasCRDOfGroupKind h [] grp kind = False"
| "hasCRDOfGroupKind h (task # tasks) grp kind =
     (if IsCRD h (targetOf task) then
        (case NestedString (Object (targetOf task)) [''spec'', ''group''] of
           None \<Rightarrow> hasCRDOfGroupKind h tasks grp kind
         | Some crdGroup \<Rightarrow>
             (case NestedString (Object (targetOf task)) [''spec'', ''names'', ''kind''] of
                None \<Rightarrow> hasCRDOfGroupKind h tasks grp kind
              | Some crdKind \<Rightarrow>
                  if grp = crdGroup \<and> crdKind = kind then True
                  else hasCRDOfGroupKind h tasks grp kind))
      else hasCRDOfGroupKind h tasks grp kind)"

text \<open>The method \<open>sc.setResourceDetails\<close>, on the list of the sync result.\<close>

definition recordDetails :: "ResourceDetails \<Rightarrow> syncContext \<Rightarrow> syncContext" where
  "recordDetails details sc =
     sc\<lparr>syncRes := (syncRes sc)\<lparr>Resources := setResourceDetails details (Resources (syncRes sc))\<rparr>\<rparr>"

subsection \<open>Waves of goroutines\<close>

text \<open>
  doApplySync starts one goroutine for every task of a wave and waits for all of them
  (\<open>wg.Wait()\<close>, \<open>createWg.Wait()\<close>). A goroutine touches the shared state twice:
  it calls the cluster (\<open>pruneObject\<close> or \<open>applyObject\<close>), and then it sets the flag
  \<open>syncSuccessful\<close> and records its details with \<open>setResourceDetails\<close>, which runs
  under the lock. The Go scheduler interleaves the goroutines of a wave as it likes, so a
  run of a wave is a list of actions: \<open>Call i\<close> is the call of the goroutine of the
  \<open>i\<close>-th task of the wave, \<open>Record i\<close> its write of the flag and of the details. (The
  flag is written just before the lock is taken; it is only ever set to false in a wave and
  read after the wave, so the two writes are one action.)
\<close>

datatype action = Call nat | Record nat

text \<open>
  A schedule is valid for \<open>n\<close> goroutines, of which those in \<open>called\<close> have made
  their call and those in \<open>recorded\<close> their record, when every goroutine makes each of
  its two actions once, the call first.
\<close>

fun validSchedule :: "nat \<Rightarrow> nat set \<Rightarrow> nat set \<Rightarrow> action list \<Rightarrow> bool" where
  "validSchedule n called recorded [] = (called = {..<n} \<and> recorded = {..<n})"
| "validSchedule n called recorded (Call i # schedule) =
     (i < n \<and> i \<notin> called \<and> validSchedule n (insert i called) recorded schedule)"
| "validSchedule n called recorded (Record i # schedule) =
     (i \<in> called \<and> i \<notin> recorded \<and> validSchedule n called (insert i recorded) schedule)"

text \<open>
  The scheduler gives the schedule of a wave from the trace at its start and its tasks.
  Every wave of one doApplySync starts with another trace (a discovery lookup precedes each
  wave of applies), so the scheduler may choose the schedule of each wave freely.
\<close>

type_synonym scheduler = "event list \<Rightarrow> syncTask list \<Rightarrow> action list"

text \<open>
  The state of a wave: the flag \<open>syncSuccessful\<close>, the sync context, and the details of
  the goroutines that have made their call and not yet recorded it (a local variable of
  each goroutine in the source).
\<close>

record goroutines =
  waveFlag :: bool
  waveCtx :: syncContext
  waveResults :: "nat \<Rightarrow> ResourceDetails option"

text \<open>
  One action. \<open>call\<close> is the first half of the body of the goroutine: from the trace and
  the task, the details (none when the goroutine returns at once) and the trace after it.
\<close>

definition runAction ::
  "helpers \<Rightarrow> bool \<Rightarrow> (event list \<Rightarrow> syncTask \<Rightarrow> ResourceDetails option \<times> event list)
     \<Rightarrow> syncTask list \<Rightarrow> goroutines \<Rightarrow> action \<Rightarrow> goroutines" where
  "runAction h update call tasks w a =
     (case a of
        Call i \<Rightarrow>
          if i < length tasks then
            (let (res, tr) = call (trace (waveCtx w)) (tasks ! i)
             in w\<lparr>waveCtx := (waveCtx w)\<lparr>trace := tr\<rparr>,
                  waveResults := (waveResults w)(i := res)\<rparr>)
          else w
      | Record i \<Rightarrow>
          (case waveResults w i of
             None \<Rightarrow> w
           | Some resDetails \<Rightarrow>
               w\<lparr>waveFlag := (if \<not> Successful h (Status resDetails) then False else waveFlag w),
                 waveCtx := (if update \<or> \<not> Successful h (Status resDetails)
                             then recordDetails resDetails (waveCtx w) else waveCtx w),
                 waveResults := (waveResults w)(i := None)\<rparr>))"

text \<open>A wave: the goroutines of \<open>tasks\<close> under the schedule, until all have returned.\<close>

definition wave ::
  "helpers \<Rightarrow> bool \<Rightarrow> (event list \<Rightarrow> syncTask \<Rightarrow> ResourceDetails option \<times> event list)
     \<Rightarrow> scheduler \<Rightarrow> syncTask list \<Rightarrow> bool \<times> syncContext \<Rightarrow> bool \<times> syncContext" where
  "wave h update call sched tasks st =
     (let (syncSuccessful, sc) = st;
          w = foldl (runAction h update call tasks)
                \<lparr>waveFlag = syncSuccessful, waveCtx = sc, waveResults = (\<lambda>i. None)\<rparr>
                (sched (trace sc) tasks)
      in (waveFlag w, waveCtx w))"

text \<open>The call of the goroutine of a prune task:\<close>

definition pruneCall ::
  "syncContext \<Rightarrow> bool \<Rightarrow> event list \<Rightarrow> syncTask \<Rightarrow> ResourceDetails option \<times> event list" where
  "pruneCall sc dryRun tr t =
     (let (resDetails, tr') =
            pruneObject (kubectl sc) (namespace sc) tr (liveOf t) (Prune (syncOp sc)) dryRun
      in (Some resDetails, tr'))"

text \<open>The call of the goroutine of an apply task; for a hook the goroutine returns at once.\<close>

definition applyCall ::
  "helpers \<Rightarrow> syncContext \<Rightarrow> bool \<Rightarrow> bool \<Rightarrow> event list \<Rightarrow> syncTask
     \<Rightarrow> ResourceDetails option \<times> event list" where
  "applyCall h sc dryRun force tr t =
     (if isHook h (targetOf t) then (None, tr)
      else
        (let (resDetails, tr') = applyObject (kubectl sc) (namespace sc) tr (targetOf t) dryRun force
         in (Some resDetails, tr')))"

text \<open>The two loops that record every task of a group as failed with one message.\<close>

definition failTasks :: "string \<Rightarrow> syncTask list \<Rightarrow> syncContext \<Rightarrow> syncContext" where
  "failTasks msg tasks sc =
     foldl (\<lambda>sc' task.
              recordDetails
                \<lparr>Name = GetName (targetOf task), Kind = GetKind (targetOf task),
                 Namespace = namespace sc', Message = msg,
                 Status = ResourceDetailsSyncFailed\<rparr> sc')
        sc tasks"

definition notPermitted :: "GroupVersionKind \<Rightarrow> string \<Rightarrow> string" where
  "notPermitted gvk project =
     ''Resource '' @ Group gvk @ '':'' @ gvkKind gvk @ '' is not permitted in project ''
       @ project @ ''.''"

text \<open>The closure \<open>processCreateTasks\<close>; \<open>createTasks\<close> is the variable it captures.\<close>

definition processCreateTasks ::
  "helpers \<Rightarrow> scheduler \<Rightarrow> bool \<Rightarrow> bool \<Rightarrow> bool \<Rightarrow> syncTask list \<Rightarrow> syncTask list
     \<Rightarrow> GroupVersionKind \<Rightarrow> bool \<times> syncContext \<Rightarrow> bool \<times> syncContext" where
  "processCreateTasks h sched dryRun force update createTasks tasks gvk st =
     (let (syncSuccessful, sc) = st;
          serverRes = disco sc (trace sc) gvk;
          sc1 = sc\<lparr>trace := trace sc @ [ServerResourceCall gvk serverRes]\<rparr>
      in case serverRes of
           Inl err \<Rightarrow>
             if dryRun \<and> IsNotFound err \<and> hasCRDOfGroupKind h createTasks (Group gvk) (gvkKind gvk)
             then (syncSuccessful, sc1)
             else (False, failTasks (Error err) tasks sc1)
         | Inr namespaced \<Rightarrow>
             if \<not> IsResourcePermitted (proj sc1) (Group gvk) (gvkKind gvk) namespaced
             then (False, failTasks (notPermitted gvk (projName (proj sc1))) tasks sc1)
             else wave h update (applyCall h sc1 dryRun force) sched tasks (syncSuccessful, sc1))"

text \<open>
  The loop over \<open>createTasks\<close> with the group collected so far, and the call for the last
  group after the loop. \<open>process\<close> is \<open>processCreateTasks\<close>.
\<close>

fun groupLoop ::
  "(syncTask list \<Rightarrow> GroupVersionKind \<Rightarrow> 's \<Rightarrow> 's) \<Rightarrow> syncTask list \<Rightarrow> syncTask list \<Rightarrow> 's \<Rightarrow> 's" where
  "groupLoop process [] tasksGroup st =
     (if length tasksGroup > 0
      then process tasksGroup (GroupVersionKind (targetOf (hd tasksGroup))) st
      else st)"
| "groupLoop process (task # rest) tasksGroup st =
     (if length tasksGroup > 0 \<and> GetKind (targetOf (hd tasksGroup)) \<noteq> GetKind (targetOf task)
      then groupLoop process rest [task]
             (process tasksGroup (GroupVersionKind (targetOf (hd tasksGroup))) st)
      else groupLoop process rest (tasksGroup @ [task]) st)"

definition doApplySync ::
  "helpers \<Rightarrow> scheduler \<Rightarrow> syncTask list \<Rightarrow> bool \<Rightarrow> bool \<Rightarrow> bool \<Rightarrow> syncContext
     \<Rightarrow> bool \<times> syncContext" where
  "doApplySync h sched syncTasks dryRun force update sc =
     (let pruneTasks = filter (\<lambda>t. targetObj t = None) syncTasks;
          createTasks = filter (\<lambda>t. targetObj t \<noteq> None) syncTasks;
          st = wave h update (pruneCall sc dryRun) sched pruneTasks (True, sc)
      in groupLoop (processCreateTasks h sched dryRun force update createTasks) createTasks [] st)"

subsection \<open>The groups of doApplySync, as the specification words them\<close>

text \<open>
  The specification speaks of task groups, "consecutive tasks of the same kind". They are
  the maximal runs of tasks with one kind, defined here without the loop of the source;
  \<open>processGroup\<close> is the call of \<open>processCreateTasks\<close> for one group.
\<close>

function taskGroups :: "syncTask list \<Rightarrow> syncTask list list" where
  "taskGroups [] = []"
| "taskGroups (t # ts) =
     (t # takeWhile (\<lambda>u. GetKind (targetOf u) = GetKind (targetOf t)) ts)
       # taskGroups (dropWhile (\<lambda>u. GetKind (targetOf u) = GetKind (targetOf t)) ts)"
  by pat_completeness auto
termination
  by (relation "measure length") (auto simp: length_dropWhile_le le_imp_less_Suc)


text \<open>
  A call of \<open>ApplyResource\<close> whose resource details are not successful, and the kind and
  name under which the details of a call are recorded.
\<close>

fun failedApply :: "helpers \<Rightarrow> event \<Rightarrow> bool" where
  "failedApply h (ApplyResourceCall tgt ns dryRun force r) = (\<not> Successful h (applyStatus r))"
| "failedApply h ev = False"

fun eventKey :: "event \<Rightarrow> string \<times> string" where
  "eventKey (ApplyResourceCall tgt ns dryRun force r) = (GetKind tgt, GetName tgt)"
| "eventKey (DeleteResourceCall obj ns err) = (GetKind obj, GetName obj)"
| "eventKey (ServerResourceCall gvk r) = (gvkKind gvk, [])"
| "eventKey ev = ([], [])"

definition progress :: "helpers \<Rightarrow> bool \<times> syncContext \<Rightarrow> bool \<times> syncContext \<Rightarrow> bool" where
  "progress h st st' \<longleftrightarrow>
     (\<exists>new. trace (snd st') = trace (snd st) @ new \<and>
        (\<forall>ev \<in> set new. failedApply h ev \<longrightarrow>
           \<not> fst st' \<and> eventKey ev \<in> resKey ` set (Resources (syncRes (snd st'))))) \<and>
     (fst st' \<longrightarrow> fst st) \<and>
     resKey ` set (Resources (syncRes (snd st))) \<subseteq> resKey ` set (Resources (syncRes (snd st')))"




text \<open>What no step of doApplySync changes of the clients and the request of the context.\<close>

definition environment ::
  "syncContext \<Rightarrow> AppProject \<times> Kubectl \<times> (event list \<Rightarrow> GroupVersionKind \<Rightarrow> error + bool) \<times> string \<times> SyncOperation" where
  "environment sc = (proj sc, kubectl sc, disco sc, namespace sc, syncOp sc)"





subsection \<open>Example values\<close>

text \<open>
  Helper functions (an object is a custom resource definition when its kind says so, no
  object is a hook, every status but SyncFailed is successful), a cluster that rejects
  every ConfigMap and accepts every other object, and a sync context over a given
  discovery client.
\<close>

definition exampleHelpers :: helpers where
  "exampleHelpers =
     \<lparr>IsCRD = (\<lambda>u. GetKind u = ''CustomResourceDefinition''),
      isHook = (\<lambda>u. False),
      Successful = (\<lambda>s. s \<noteq> ResourceDetailsSyncFailed),
      ContainsSyncResource = (\<lambda>name gvk rs. False)\<rparr>"

definition exampleKubectl :: Kubectl where
  "exampleKubectl =
     \<lparr>ApplyResource = (\<lambda>tr obj ns dryRun force.
         if GetKind obj = ''ConfigMap'' then Inl (Err False ''invalid'') else Inr ''configured''),
      DeleteResource = (\<lambda>tr obj ns. None)\<rparr>"

definition exampleOperation :: SyncOperation where
  "exampleOperation =
     \<lparr>opRevision = ''HEAD'', Prune = False, DryRun = False, SyncStrategy = None,
      opResources = None, ParameterOverrides = []\<rparr>"

definition exampleContext :: "(event list \<Rightarrow> GroupVersionKind \<Rightarrow> error + bool) \<Rightarrow> syncContext" where
  "exampleContext d =
     \<lparr>appName = ''my-app'',
      proj = \<lparr>projName = ''default'', IsResourcePermitted = (\<lambda>g k namespaced. True)\<rparr>,
      comparison = \<lparr>compStatus = ComparisonStatusOutOfSync, compRevision = ''aaaa''\<rparr>,
      resources = [], kubectl = exampleKubectl, disco = d, namespace = ''dummy-namespace'',
      syncOp = exampleOperation,
      syncRes = \<lparr>Resources = [], Hooks = [], Revision = ''aaaa''\<rparr>,
      syncResources = None,
      opState = \<lparr>Operation = \<lparr>Sync = Some exampleOperation\<rparr>, Phase = OperationRunning,
                  StateMessage = '''', SyncResult = None\<rparr>,
      manifestInfo = \<lparr>manifestRevision = ''aaaa'', Params = []\<rparr>,
      trace = []\<rparr>"

text \<open>
  Two schedulers: every goroutine runs to its end before the next one starts, in the order
  of the tasks; and all goroutines make their calls first, the last task first, and then
  record in the order of the tasks.
\<close>

definition inOrder :: scheduler where
  "inOrder tr tasks = concat (map (\<lambda>i. [Call i, Record i]) [0..<length tasks])"

definition callsFirst :: scheduler where
  "callsFirst tr tasks = map Call (rev [0..<length tasks]) @ map Record [0..<length tasks]"

text \<open>A custom resource definition for the kind Foo of the group foo.io, and an object of
  that kind.\<close>

definition crdObject :: Unstructured where
  "crdObject =
     \<lparr>Object = [''spec'' \<mapsto> JMap [''group'' \<mapsto> JString ''foo.io'',
                                       ''names'' \<mapsto> JMap [''kind'' \<mapsto> JString ''Foo'']]],
      GetName = ''foos.foo.io'', GetKind = ''CustomResourceDefinition'', GetNamespace = '''',
      GroupVersionKind = \<lparr>Group = ''apiextensions.k8s.io'', Version = ''v1beta1'',
                            gvkKind = ''CustomResourceDefinition''\<rparr>\<rparr>"

definition fooObject :: Unstructured where
  "fooObject =
     \<lparr>Object = Map.empty, GetName = ''my-foo'', GetKind = ''Foo'', GetNamespace = ''default'',
      GroupVersionKind = \<lparr>Group = ''foo.io'', Version = ''v1'', gvkKind = ''Foo''\<rparr>\<rparr>"

subsection \<open>The kind sorter\<close>

text \<open>resourceOrder represents the correct order of Kubernetes resources within a manifest.\<close>

definition resourceOrder :: "string list" where
  "resourceOrder =
     [''Namespace'', ''ResourceQuota'', ''LimitRange'', ''PodSecurityPolicy'', ''Secret'',
      ''ConfigMap'', ''StorageClass'', ''PersistentVolume'', ''PersistentVolumeClaim'',
      ''ServiceAccount'', ''CustomResourceDefinition'', ''ClusterRole'',
      ''ClusterRoleBinding'', ''Role'', ''RoleBinding'', ''Service'', ''DaemonSet'', ''Pod'',
      ''ReplicationController'', ''ReplicaSet'', ''Deployment'', ''StatefulSet'', ''Job'',
      ''CronJob'', ''Ingress'', ''APIService'']"

record kindSorter =
  ordering :: "string \<Rightarrow> nat option"
  manifests :: "syncTask list"

text \<open>\<open>for v, k := range s { o[k] = v }\<close>: a later index overwrites an earlier one.\<close>

definition newKindSorter :: "syncTask list \<Rightarrow> string list \<Rightarrow> kindSorter" where
  "newKindSorter m s =
     \<lparr>ordering = foldl (\<lambda>ord (v, k). ord(k \<mapsto> v)) Map.empty (enumerate 0 s),
      manifests = m\<rparr>"

text \<open>
  A Go map read with two results, \<open>v, ok := m[key]\<close>: a missing key gives the zero value
  of the element type, here \<open>0\<close>, and \<open>false\<close>.
\<close>

definition mapIndex :: "(string \<Rightarrow> nat option) \<Rightarrow> string \<Rightarrow> nat \<times> bool" where
  "mapIndex m key = (case m key of None \<Rightarrow> (0, False) | Some v \<Rightarrow> (v, True))"

definition Len :: "kindSorter \<Rightarrow> nat" where
  "Len k = length (manifests k)"

definition Swap :: "kindSorter \<Rightarrow> nat \<Rightarrow> nat \<Rightarrow> kindSorter" where
  "Swap k i j = k\<lparr>manifests := (manifests k)[i := manifests k ! j, j := manifests k ! i]\<rparr>"

text \<open>
  \<open>Less\<close> is called by \<open>sort.Sort\<close> with indices below \<open>Len\<close> only (an index out of
  range panics in Go).
\<close>

definition Less :: "kindSorter \<Rightarrow> nat \<Rightarrow> nat \<Rightarrow> bool" where
  "Less k i j =
     (case targetObj (manifests k ! i) of
        None \<Rightarrow> False
      | Some a \<Rightarrow>
          (case targetObj (manifests k ! j) of
             None \<Rightarrow> True
           | Some b \<Rightarrow>
               (let (first, aok) = mapIndex (ordering k) (GetKind a);
                    (second, bok) = mapIndex (ordering k) (GetKind b)
                in if first = second then
                     (if \<not> aok \<and> \<not> bok \<and> GetKind a \<noteq> GetKind b
                      then GetKind a < GetKind b
                      else GetName a < GetName b)
                   else if \<not> aok then False
                   else if \<not> bok then True
                   else first < second)))"

text \<open>
  \<open>sort.Sort\<close> belongs to the Go standard library. On a slice of at most six elements
  every release of it runs \<open>insertionSort(data, 0, n)\<close> and nothing else:
  \<open>for i := 1; i < n; i++ { for j := i; j > 0 && data.Less(j, j-1); j-- { data.Swap(j, j-1) } }\<close>.
\<close>

fun insertionSortInner :: "kindSorter \<Rightarrow> nat \<Rightarrow> kindSorter" where
  "insertionSortInner k 0 = k"
| "insertionSortInner k (Suc j) =
     (if Less k (Suc j) j then insertionSortInner (Swap k (Suc j) j) j else k)"

definition insertionSort :: "kindSorter \<Rightarrow> kindSorter" where
  "insertionSort k = foldl insertionSortInner k [1..<Len k]"

text \<open>A task that applies an object of the given kind and name, and one that prunes it.\<close>

definition object :: "string \<Rightarrow> string \<Rightarrow> Unstructured" where
  "object kind name =
     \<lparr>Object = Map.empty, GetName = name, GetKind = kind, GetNamespace = ''default'',
      GroupVersionKind = \<lparr>Group = '''', Version = ''v1'', gvkKind = kind\<rparr>\<rparr>"

definition applyTask :: "string \<Rightarrow> string \<Rightarrow> syncTask" where
  "applyTask kind name = \<lparr>liveObj = None, targetObj = Some (object kind name)\<rparr>"

definition pruneTask :: "string \<Rightarrow> string \<Rightarrow> syncTask" where
  "pruneTask kind name = \<lparr>liveObj = Some (object kind name), targetObj = None\<rparr>"

text \<open>
  The order the specification describes, as a rank compared lexicographically: the
  position of the kind in the canonical order, or the length of the order for a kind that
  is not in it; for such a kind, the kind; then the name.
\<close>

definition taskRank :: "kindSorter \<Rightarrow> Unstructured \<Rightarrow> nat \<times> string \<times> string" where
  "taskRank k a =
     (case ordering k (GetKind a) of
        Some x \<Rightarrow> (x, [], GetName a)
      | None \<Rightarrow> (length resourceOrder, GetKind a, GetName a))"

subsection \<open>The phases of a sync\<close>

definition setOperationPhase :: "OperationPhase \<Rightarrow> string \<Rightarrow> syncContext \<Rightarrow> syncContext" where
  "setOperationPhase phase message sc =
     sc\<lparr>opState := (opState sc)\<lparr>Phase := phase, StateMessage := message\<rparr>\<rparr>"

definition startedPreSyncPhase :: "syncContext \<Rightarrow> bool" where
  "startedPreSyncPhase sc =
     (if length (Resources (syncRes sc)) > 0 then True
      else if length (Hooks (syncRes sc)) > 0 then True
      else False)"

definition startedSyncPhase :: "syncContext \<Rightarrow> bool" where
  "startedSyncPhase sc =
     (if length (Resources (syncRes sc)) > 0 then True
      else list_ex (\<lambda>hookStatus. Type hookStatus = HookTypeSync \<or> Type hookStatus = HookTypePostSync)
             (Hooks (syncRes sc)))"

definition startedPostSyncPhase :: "syncContext \<Rightarrow> bool" where
  "startedPostSyncPhase sc =
     list_ex (\<lambda>hookStatus. Type hookStatus = HookTypePostSync) (Hooks (syncRes sc))"

text \<open>
  The loop of generateSyncTasks over \<open>sc.resources\<close>: the message of the error phase
  when an object cannot be unmarshalled, the tasks otherwise.
\<close>

fun generateLoop ::
  "helpers \<Rightarrow> SyncOperationResource list option \<Rightarrow> ResourceState list \<Rightarrow> syncTask list
     \<Rightarrow> string + syncTask list" where
  "generateLoop h selected [] syncTasks = Inr syncTasks"
| "generateLoop h selected (resourceState # rest) syncTasks =
     (case LiveObject resourceState of
        Inl err \<Rightarrow> Inl (''Failed to unmarshal live object: '' @ Error err)
      | Inr lv \<Rightarrow>
          (case TargetObject resourceState of
             Inl err \<Rightarrow> Inl (''Failed to unmarshal target object: '' @ Error err)
           | Inr tg \<Rightarrow>
               if (case selected of
                     None \<Rightarrow> True
                   | Some rs \<Rightarrow>
                       (case lv of
                          None \<Rightarrow> False
                        | Some l \<Rightarrow> ContainsSyncResource h (GetName l) (GroupVersionKind l) rs) \<or>
                       (case tg of
                          None \<Rightarrow> False
                        | Some t \<Rightarrow> ContainsSyncResource h (GetName t) (GroupVersionKind t) rs))
               then generateLoop h selected rest (syncTasks @ [\<lparr>liveObj = lv, targetObj = tg\<rparr>])
               else generateLoop h selected rest syncTasks))"

text \<open>
  generateSyncTasks returns the context (whose phase it sets on an error), the tasks and
  whether it succeeded. \<open>sortSort\<close> is \<open>sort.Sort\<close> of the Go standard library, a
  parameter.
\<close>

definition generateSyncTasks ::
  "helpers \<Rightarrow> (kindSorter \<Rightarrow> kindSorter) \<Rightarrow> syncContext \<Rightarrow> syncContext \<times> syncTask list \<times> bool" where
  "generateSyncTasks h sortSort sc =
     (case generateLoop h (syncResources sc) (resources sc) [] of
        Inl message \<Rightarrow> (setOperationPhase OperationError message sc, [], False)
      | Inr syncTasks \<Rightarrow>
          (sc, manifests (sortSort (newKindSorter syncTasks resourceOrder)), True))"

text \<open>
  Modelled from the spec: \<open>terminate\<close>, \<open>getHooks\<close> and \<open>doHookSync\<close> are methods of
  the sync context that sync.go calls and that are declared in a file which is not among
  the sources. By the specification the hook phases advance the operation through
  \<open>setOperationPhase\<close>, track the status of every hook in \<open>SyncResult.Hooks\<close>, record
  resource details and talk to the cluster. They are parameters that read the sync context
  and yield the phase, the message, the two lists and the calls they made.
\<close>

record hookOutcome =
  outPhase :: OperationPhase
  outMessage :: string
  outResources :: "ResourceDetails list"
  outHooks :: "HookStatus list"
  outCalls :: "event list"

record hookPhases =
  terminate :: "syncContext \<Rightarrow> hookOutcome"
  getHooks :: "syncContext \<Rightarrow> error + Unstructured list"
  doHookSync :: "syncTask list \<Rightarrow> Unstructured list \<Rightarrow> syncContext \<Rightarrow> hookOutcome"

definition withOutcome :: "hookOutcome \<Rightarrow> syncContext \<Rightarrow> syncContext" where
  "withOutcome out sc =
     sc\<lparr>opState := (opState sc)\<lparr>Phase := outPhase out, StateMessage := outMessage out\<rparr>,
        syncRes := (syncRes sc)\<lparr>Resources := outResources out, Hooks := outHooks out\<rparr>,
        trace := trace sc @ outCalls out\<rparr>"

text \<open>The part of \<open>sync\<close> after the dry run: the sync strategy.\<close>

definition syncStrategy :: "helpers \<Rightarrow> scheduler \<Rightarrow> hookPhases \<Rightarrow> syncTask list \<Rightarrow> syncContext \<Rightarrow> syncContext" where
  "syncStrategy h sched hp syncTasks sc =
     (let strategy = (case SyncStrategy (syncOp sc) of
                        None \<Rightarrow> \<lparr>Apply = None, Hook = Some SyncStrategyHook\<rparr>
                      | Some st \<Rightarrow> st);
          sc1 = sc\<lparr>syncOp := (syncOp sc)\<lparr>SyncStrategy := Some strategy\<rparr>\<rparr>
      in case Apply strategy of
           Some apply \<Rightarrow>
             if \<not> startedSyncPhase sc1 then
               (let (ok, sc2) = doApplySync h sched syncTasks False (Force apply) True sc1
                in if \<not> ok
                   then setOperationPhase OperationFailed ''one or more objects failed to apply'' sc2
                   else sc2)
             else setOperationPhase OperationSucceeded ''successfully synced'' sc1
         | None \<Rightarrow>
             (case Hook strategy of
                Some hook \<Rightarrow>
                  (case getHooks hp sc1 of
                     Inl err \<Rightarrow>
                       setOperationPhase OperationError
                         (''failed to generate hooks resources: '' @ Error err) sc1
                   | Inr hooks \<Rightarrow> withOutcome (doHookSync hp syncTasks hooks sc1) sc1)
              | None \<Rightarrow> setOperationPhase OperationFailed ''Unknown sync strategy'' sc1))"

text \<open>sync performs the actual apply or hook based sync.\<close>

definition sync :: "helpers \<Rightarrow> scheduler \<Rightarrow> (kindSorter \<Rightarrow> kindSorter) \<Rightarrow> hookPhases \<Rightarrow> syncContext \<Rightarrow> syncContext" where
  "sync h sched sortSort hp sc =
     (case generateSyncTasks h sortSort sc of
        (sc0, syncTasks, successful) \<Rightarrow>
          if \<not> successful then sc0
          else if length syncTasks = 0
          then setOperationPhase OperationSucceeded ''successfully synced (no manifests)'' sc0
          else if \<not> startedPreSyncPhase sc0 then
            (let (ok, sc1) = doApplySync h sched syncTasks True False (DryRun (syncOp sc0)) sc0
             in if \<not> ok
                then setOperationPhase OperationFailed
                       ''one or more objects failed to apply (dry run)'' sc1
                else if DryRun (syncOp sc1)
                then setOperationPhase OperationSucceeded ''successfully synced (dry run)'' sc1
                else syncStrategy h sched hp syncTasks sc1)
          else syncStrategy h sched hp syncTasks sc0)"

subsection \<open>SyncAppState\<close>

record SyncPolicy =
  automated :: bool

record Application =
  metaName :: string
  destServer :: string
  destNamespace :: string
  ComponentParameterOverrides :: "ComponentParameter list"
  appSyncPolicy :: "SyncPolicy option"
  appOperation :: "Operation option"
  statusOperationState :: "OperationState option"

record ApplicationCondition =
  condType :: string
  condMessage :: string

record Cluster =
  clusterServer :: string

text \<open>
  The application state manager with what SyncAppState calls on it and around it, none of
  which is declared in sync.go: the comparator \<open>CompareAppState\<close> (the comparison, the
  manifest response, the resource states and the conditions, or an error), the cluster
  store, the constructors of the dynamic and the discovery client, the project lookup, the
  kubectl of a cluster configuration, \<open>persistDeploymentInfo\<close>, and the predicates
  \<open>ApplicationCondition.IsError\<close>, \<open>OperationPhase.Successful\<close> and the formatter
  \<open>argo.FormatAppConditions\<close>. Calls that leave the process take the trace so far.
  \<open>scheduler\<close> is the scheduler of the goroutines of doApplySync.
\<close>

record appStateManager =
  CompareAppState ::
    "event list \<Rightarrow> Application \<Rightarrow> string \<Rightarrow> ComponentParameter list
       \<Rightarrow> error + (ComparisonResult \<times> ManifestResponse \<times> ResourceState list \<times> ApplicationCondition list)"
  IsError :: "ApplicationCondition \<Rightarrow> bool"
  FormatAppConditions :: "ApplicationCondition list \<Rightarrow> string"
  GetCluster :: "event list \<Rightarrow> string \<Rightarrow> error + Cluster"
  NewForConfig :: "Cluster \<Rightarrow> error option"
  NewDiscoveryClientForConfig :: "Cluster \<Rightarrow> error + (event list \<Rightarrow> GroupVersionKind \<Rightarrow> error + bool)"
  GetAppProject :: "event list \<Rightarrow> Application \<Rightarrow> error + AppProject"
  kubectlOf :: "Cluster \<Rightarrow> Kubectl"
  persistDeploymentInfo :: "event list \<Rightarrow> Application \<Rightarrow> string \<Rightarrow> ComponentParameter list \<Rightarrow> error option"
  phaseSuccessful :: "OperationPhase \<Rightarrow> bool"
  sortSort :: "kindSorter \<Rightarrow> kindSorter"
  hooks :: hookPhases
  helperFunctions :: helpers
  scheduler :: scheduler

definition failOperation :: "string \<Rightarrow> OperationState \<Rightarrow> OperationState" where
  "failOperation message state = state\<lparr>Phase := OperationError, StateMessage := message\<rparr>"

text \<open>
  The end of SyncAppState: the state that the context points to, with its sync result, and
  the record of the deployment in the history.
\<close>

definition recordHistory ::
  "appStateManager \<Rightarrow> Application \<Rightarrow> SyncOperation \<Rightarrow> ManifestResponse \<Rightarrow> syncContext
     \<Rightarrow> OperationState \<times> event list" where
  "recordHistory s app operation info sc =
     (let state1 = (opState sc)\<lparr>SyncResult := Some (syncRes sc)\<rparr>
      in if \<not> DryRun operation
            \<and> length (case opResources operation of None \<Rightarrow> [] | Some rs \<Rightarrow> rs) = 0
            \<and> phaseSuccessful s (Phase (opState sc))
         then
           (let tr3 = trace sc @ [PersistDeploymentInfoCall (manifestRevision info) (Params info)]
            in case persistDeploymentInfo s (trace sc) app (manifestRevision info) (Params info) of
                 Some err \<Rightarrow>
                   (failOperation (''failed to record sync to history: '' @ Error err) state1, tr3)
               | None \<Rightarrow> (state1, tr3))
         else (state1, trace sc))"

text \<open>
  The part of SyncAppState after the comparison: the sync result carries the resolved
  revision from here on.
\<close>

definition runSync ::
  "appStateManager \<Rightarrow> event list \<Rightarrow> Application \<Rightarrow> OperationState \<Rightarrow> SyncOperation
     \<Rightarrow> SyncOperationResult \<Rightarrow> ComparisonResult \<Rightarrow> ManifestResponse \<Rightarrow> ResourceState list
     \<Rightarrow> OperationState \<times> event list" where
  "runSync s tr app state operation result cmp info states =
     (let tr1 = tr @ [GetClusterCall (destServer app)];
          tr2 = tr1 @ [GetAppProjectCall (metaName app)]
      in case GetCluster s tr (destServer app) of
           Inl err \<Rightarrow> (failOperation (Error err) state, tr1)
         | Inr clst \<Rightarrow>
             (case NewForConfig s clst of
                Some err \<Rightarrow>
                  (failOperation (''Failed to initialize dynamic client: '' @ Error err) state, tr1)
              | None \<Rightarrow>
                  (case NewDiscoveryClientForConfig s clst of
                     Inl err \<Rightarrow>
                       (failOperation
                          (''Failed to initialize discovery client: '' @ Error err) state, tr1)
                   | Inr discoveryClient \<Rightarrow>
                       (case GetAppProject s tr1 app of
                          Inl err \<Rightarrow>
                            (failOperation
                               (''Failed to load application project: '' @ Error err) state, tr2)
                        | Inr project \<Rightarrow>
                            (let syncCtx =
                                   \<lparr>appName = metaName app, proj = project, comparison = cmp,
                                    resources = states, kubectl = kubectlOf s clst,
                                    disco = discoveryClient, namespace = destNamespace app,
                                    syncOp = operation, syncRes = result,
                                    syncResources = opResources operation, opState = state,
                                    manifestInfo = info, trace = tr2\<rparr>
                             in recordHistory s app operation info
                                  (if Phase state = OperationTerminating
                                   then withOutcome (terminate (hooks s) syncCtx) syncCtx
                                   else sync (helperFunctions s) (scheduler s) (sortSort s) (hooks s)
                                          syncCtx))))))"

text \<open>
  SyncAppState returns the operation state and the trace. \<open>state.SyncResult\<close> and the
  local \<open>syncRes\<close> are one object: a fresh result is stored in the state before the
  comparison, and the assignment to \<open>syncRes.Revision\<close> is an assignment to the state.
\<close>

definition SyncAppState ::
  "appStateManager \<Rightarrow> event list \<Rightarrow> Application \<Rightarrow> OperationState \<Rightarrow> OperationState \<times> event list" where
  "SyncAppState s tr app state =
     (case Sync (Operation state) of
        None \<Rightarrow>
          (state\<lparr>Phase := OperationFailed,
                 StateMessage := ''Invalid operation request: no operation specified''\<rparr>, tr)
      | Some operation \<Rightarrow>
          (let overrides = ParameterOverrides operation;
               result = (case SyncResult state of
                           Some r \<Rightarrow> r
                         | None \<Rightarrow> \<lparr>Resources = [], Hooks = [], Revision = ''''\<rparr>);
               state0 = state\<lparr>SyncResult := Some result\<rparr>;
               revision = (case SyncResult state of Some r \<Rightarrow> Revision r | None \<Rightarrow> '''');
               revision1 = (if revision = '''' then opRevision operation else revision);
               tr1 = tr @ [CompareAppStateCall revision1 overrides]
           in case CompareAppState s tr app revision1 overrides of
                Inl err \<Rightarrow> (failOperation (Error err) state0, tr1)
              | Inr (cmp, info, states, conditions) \<Rightarrow>
                  (let errConditions = filter (IsError s) conditions
                   in if length errConditions > 0
                      then (failOperation (FormatAppConditions s errConditions) state0, tr1)
                      else
                        (let result1 = result\<lparr>Revision := manifestRevision info\<rparr>
                         in runSync s tr1 app (state0\<lparr>SyncResult := Some result1\<rparr>)
                              operation result1 cmp info states))))"

text \<open>
  The revision SyncAppState asks the comparator for: the one remembered in the sync result,
  or the one of the operation when none is remembered.
\<close>

definition requestedRevision :: "OperationState \<Rightarrow> SyncOperation \<Rightarrow> string" where
  "requestedRevision state operation =
     (case SyncResult state of
        None \<Rightarrow> opRevision operation
      | Some r \<Rightarrow> if Revision r = [] then opRevision operation else Revision r)"

text \<open>What no step of doApplySync changes: the resolved revision and the operation state.\<close>

definition pinned :: "syncContext \<Rightarrow> string \<times> OperationState" where
  "pinned sc = (Revision (syncRes sc), opState sc)"

text \<open>The resource list of the sync result has no two entries with one kind and name.\<close>

definition uniqueResources :: "syncContext \<Rightarrow> bool" where
  "uniqueResources sc \<longleftrightarrow> distinct (map resKey (Resources (syncRes sc)))"

subsection \<open>An example application state manager\<close>

text \<open>
  A manager whose comparator resolves the symbolic revision HEAD to a given commit and
  every other revision to itself, with no manifests and no conditions; every other call
  succeeds, and every goroutine runs to its end before the next one starts.
\<close>

definition exampleManager :: "string \<Rightarrow> appStateManager" where
  "exampleManager head =
     \<lparr>CompareAppState = (\<lambda>tr app revision overrides.
         Inr (\<lparr>compStatus = ComparisonStatusSynced,
                compRevision = (if revision = ''HEAD'' then head else revision)\<rparr>,
              \<lparr>manifestRevision = (if revision = ''HEAD'' then head else revision),
                Params = overrides\<rparr>,
              [], [])),
      IsError = (\<lambda>c. condType c = ''ComparisonError''),
      FormatAppConditions = (\<lambda>cs. concat (map condMessage cs)),
      GetCluster = (\<lambda>tr server. Inr \<lparr>clusterServer = server\<rparr>),
      NewForConfig = (\<lambda>c. None),
      NewDiscoveryClientForConfig = (\<lambda>c. Inr (\<lambda>tr gvk. Inr True)),
      GetAppProject = (\<lambda>tr app.
         Inr \<lparr>projName = ''default'', IsResourcePermitted = (\<lambda>g k namespaced. True)\<rparr>),
      kubectlOf = (\<lambda>c. exampleKubectl),
      persistDeploymentInfo = (\<lambda>tr app revision params. None),
      phaseSuccessful = (\<lambda>phase. phase = OperationSucceeded),
      sortSort = insertionSort,
      hooks = \<lparr>terminate = (\<lambda>sc. \<lparr>outPhase = OperationFailed, outMessage = ''Operation terminated'',
                                      outResources = Resources (syncRes sc),
                                      outHooks = Hooks (syncRes sc), outCalls = []\<rparr>),
               getHooks = (\<lambda>sc. Inr []),
               doHookSync = (\<lambda>tasks hs sc.
                  \<lparr>outPhase = OperationSucceeded, outMessage = ''successfully synced'',
                   outResources = Resources (syncRes sc), outHooks = Hooks (syncRes sc),
                   outCalls = []\<rparr>)\<rparr>,
      helperFunctions = exampleHelpers, scheduler = inOrder\<rparr>"


definition exampleApp :: Application where
  "exampleApp =
     \<lparr>metaName = ''my-app'', destServer = ''https://localhost:6443'',
      destNamespace = ''dummy-namespace'', ComponentParameterOverrides = [],
      appSyncPolicy = Some \<lparr>automated = True\<rparr>, appOperation = None,
      statusOperationState = None\<rparr>"

definition exampleState :: OperationState where
  "exampleState =
     \<lparr>Operation = \<lparr>Sync = Some exampleOperation\<rparr>, Phase = OperationRunning,
      StateMessage = '''', SyncResult = None\<rparr>"

section \<open>The auto-sync policy and the differ, from the specification\<close>

text \<open>
  Modelled from the spec: \<open>autoSync\<close> of the application controller is not among the
  sources (only its tests are). The definition follows the decision table of the
  specification, read from top to bottom: automated absent, skip; comparison Synced, skip;
  most recent SyncResult with the same revision and the same parameter overrides, skip,
  with the condition "previous sync to this revision failed" when that sync failed;
  otherwise a new Sync operation for the compared revision is set on the application. The
  overrides of the most recent sync are those of its operation, the current ones those of
  the application. The result is the message of the condition, if any, and the
  application.
\<close>

text \<open>Parameter overrides are equal as sets of (name, value) pairs.\<close>

definition sameOverrides :: "ComponentParameter list \<Rightarrow> ComponentParameter list \<Rightarrow> bool" where
  "sameOverrides xs ys \<longleftrightarrow>
     set (map (\<lambda>p. (paramName p, paramValue p)) xs) = set (map (\<lambda>p. (paramName p, paramValue p)) ys)"

definition sameAsLastSync :: "Application \<Rightarrow> ComparisonResult \<Rightarrow> bool" where
  "sameAsLastSync app cmp =
     (case statusOperationState app of
        None \<Rightarrow> False
      | Some st \<Rightarrow>
          (case SyncResult st of
             None \<Rightarrow> False
           | Some r \<Rightarrow>
               (case Sync (Operation st) of
                  None \<Rightarrow> False
                | Some operation \<Rightarrow>
                    Revision r = compRevision cmp \<and>
                    sameOverrides (ParameterOverrides operation) (ComponentParameterOverrides app))))"

definition autoSyncEnabled :: "Application \<Rightarrow> bool" where
  "autoSyncEnabled app = (case appSyncPolicy app of None \<Rightarrow> False | Some policy \<Rightarrow> automated policy)"

definition autoSync :: "Application \<Rightarrow> ComparisonResult \<Rightarrow> string option \<times> Application" where
  "autoSync app cmp =
     (if \<not> autoSyncEnabled app then (None, app)
      else if compStatus cmp = ComparisonStatusSynced then (None, app)
      else if sameAsLastSync app cmp then
        (case statusOperationState app of
           None \<Rightarrow> (None, app)
         | Some st \<Rightarrow>
             if Phase st = OperationFailed
             then (Some ''previous sync to this revision failed'', app)
             else (None, app))
      else
        (None, app\<lparr>appOperation := Some \<lparr>Sync = Some
           \<lparr>opRevision = compRevision cmp, Prune = False, DryRun = False, SyncStrategy = None,
            opResources = None, ParameterOverrides = ComponentParameterOverrides app\<rparr>\<rparr>\<rparr>))"

text \<open>
  Modelled from the spec: \<open>twoWayDiff\<close> of the differ is not among the sources (only its
  tests are). By the specification the two-way diff reports any structural inequality
  between the normalized desired and the normalized live object; a live object without a
  desired one is not a difference, a desired object without a live one is. The normalizer
  is a parameter.
\<close>

record DiffResult =
  modified :: bool

definition twoWayDiff :: "('o \<Rightarrow> 'n) \<Rightarrow> 'o option \<Rightarrow> 'o option \<Rightarrow> DiffResult" where
  "twoWayDiff norm desired lv =
     (case desired of
        None \<Rightarrow> \<lparr>modified = False\<rparr>
      | Some d \<Rightarrow>
          (case lv of
             None \<Rightarrow> \<lparr>modified = True\<rparr>
           | Some l \<Rightarrow> \<lparr>modified = (norm d \<noteq> norm l)\<rparr>))"

section \<open>Properties\<close>

subsection \<open>setResourceDetails keeps the entries unique by kind and name\<close>

lemma setResourceDetails_keys:
  "set (map resKey (setResourceDetails d xs)) = insert (resKey d) (set (map resKey xs))"
  by (induction xs) (auto simp: resKey_def)

lemma setResourceDetails_distinct:
  "distinct (map resKey xs) \<Longrightarrow> distinct (map resKey (setResourceDetails d xs))"
proof (induction xs)
  case Nil
  then show ?case by simp
next
  case (Cons r rs)
  show ?case
  proof (cases "Kind r = Kind d \<and> Name r = Name d")
    case True
    then have "resKey d = resKey r" by (simp add: resKey_def)
    with True Cons.prems show ?thesis by simp
  next
    case False
    then have ne: "resKey r \<noteq> resKey d" by (auto simp: resKey_def)
    have step: "setResourceDetails d (r # rs) = r # setResourceDetails d rs"
      using False by auto
    have "resKey r \<notin> set (map resKey (setResourceDetails d rs))"
      using Cons.prems ne unfolding setResourceDetails_keys by auto
    with Cons show ?thesis unfolding step by simp
  qed
qed

lemma setResourceDetails_append:
  "resKey d \<notin> set (map resKey xs) \<Longrightarrow> setResourceDetails d xs = xs @ [d]"
  by (induction xs) (auto simp: resKey_def)

lemma setResourceDetails_update:
  "resKey d \<in> set (map resKey xs) \<Longrightarrow>
   \<exists>i < length xs. resKey (xs ! i) = resKey d \<and> (\<forall>j < i. resKey (xs ! j) \<noteq> resKey d)
      \<and> setResourceDetails d xs = xs[i := d]"
proof (induction xs)
  case Nil
  then show ?case by simp
next
  case (Cons r rs)
  show ?case
  proof (cases "Kind r = Kind d \<and> Name r = Name d")
    case True
    then have "resKey ((r # rs) ! 0) = resKey d \<and> setResourceDetails d (r # rs) = (r # rs)[0 := d]"
      by (simp add: resKey_def)
    then show ?thesis by blast
  next
    case False
    then have ne: "resKey r \<noteq> resKey d" by (auto simp: resKey_def)
    with Cons.prems have "resKey d \<in> set (map resKey rs)" by auto
    from Cons.IH [OF this] obtain i where i: "i < length rs" "resKey (rs ! i) = resKey d"
      "\<forall>j < i. resKey (rs ! j) \<noteq> resKey d" "setResourceDetails d rs = rs[i := d]"
      by blast
    have "\<forall>j < Suc i. resKey ((r # rs) ! j) \<noteq> resKey d"
      using i(3) ne by (auto simp: nth_Cons split: nat.splits)
    moreover have "setResourceDetails d (r # rs) = r # setResourceDetails d rs"
      using False by auto
    then have "setResourceDetails d (r # rs) = (r # rs)[Suc i := d]"
      using i(4) by simp
    ultimately show ?thesis using i(1,2)
      by (intro exI [of _ "Suc i"]) simp
  qed
qed

text \<open>
  C7. Uniqueness by (kind, name) of the list of resource details is preserved by
  \<open>setResourceDetails\<close>: when no two entries of the list share kind and name before
  the call, none do afterwards. An entry with the kind and name of the new details is
  overwritten at its position (the first and only one with that key); when there is none,
  the new details are appended.
\<close>

theorem C7_setResourceDetails_unique:
  "distinct (map resKey xs) \<Longrightarrow>
   distinct (map resKey (setResourceDetails d xs)) \<and>
   (if resKey d \<in> set (map resKey xs)
    then \<exists>i < length xs. resKey (xs ! i) = resKey d \<and> setResourceDetails d xs = xs[i := d]
    else setResourceDetails d xs = xs @ [d])"
  using setResourceDetails_distinct [of xs d] setResourceDetails_append [of d xs]
    setResourceDetails_update [of d xs]
  by (simp split: if_splits) blast

theorem C7_setResourceDetails_unique_witness:
  "distinct (map resKey
      [\<lparr>Name = ''web'', Kind = ''Service'', Namespace = ''default'', Message = ''old'',
        Status = ResourceDetailsSyncFailed\<rparr>]) \<and>
   setResourceDetails
      \<lparr>Name = ''web'', Kind = ''Service'', Namespace = ''default'', Message = ''new'',
       Status = ResourceDetailsSynced\<rparr>
      [\<lparr>Name = ''web'', Kind = ''Service'', Namespace = ''default'', Message = ''old'',
        Status = ResourceDetailsSyncFailed\<rparr>] =
      [\<lparr>Name = ''web'', Kind = ''Service'', Namespace = ''default'', Message = ''new'',
        Status = ResourceDetailsSynced\<rparr>] \<and>
   distinct (map resKey (setResourceDetails
      \<lparr>Name = ''web'', Kind = ''Service'', Namespace = ''default'', Message = ''new'',
       Status = ResourceDetailsSynced\<rparr>
      [\<lparr>Name = ''web'', Kind = ''Service'', Namespace = ''default'', Message = ''old'',
        Status = ResourceDetailsSyncFailed\<rparr>]))"
  using C7_setResourceDetails_unique
    [of "[\<lparr>Name = ''web'', Kind = ''Service'', Namespace = ''default'', Message = ''old'',
           Status = ResourceDetailsSyncFailed\<rparr>]"
        "\<lparr>Name = ''web'', Kind = ''Service'', Namespace = ''default'', Message = ''new'',
          Status = ResourceDetailsSynced\<rparr>"]
  by simp

subsection \<open>pruneObject\<close>

text \<open>
  C4. A prune task deletes the live object iff prune is true and dryRun is false: exactly
  then the trace grows, by one call of DeleteResource on the live object. With prune and
  dryRun both true the details carry the status SyncedAndPruned and the message
  "pruned (dry run)" and nothing is deleted; with prune false they carry the status
  PruningRequired and nothing is deleted. (When the object is deleted, the status follows
  the answer of the cluster.)
\<close>

theorem C4_pruneObject_semantics:
  "snd (pruneObject kc ns tr live prune dryRun) =
     (if prune \<and> \<not> dryRun
      then tr @ [DeleteResourceCall live ns (DeleteResource kc tr live ns)]
      else tr) \<and>
   (filter isDelete (drop (length tr) (snd (pruneObject kc ns tr live prune dryRun))) \<noteq> [])
     = (prune \<and> \<not> dryRun) \<and>
   Status (fst (pruneObject kc ns tr live prune dryRun)) =
     (if prune then
        if dryRun then ResourceDetailsSyncedAndPruned
        else (case DeleteResource kc tr live ns of
                None \<Rightarrow> ResourceDetailsSyncedAndPruned
              | Some e \<Rightarrow> ResourceDetailsSyncFailed)
      else ResourceDetailsPruningRequired) \<and>
   Message (fst (pruneObject kc ns tr live prune dryRun)) =
     (if prune then
        if dryRun then ''pruned (dry run)''
        else (case DeleteResource kc tr live ns of
                None \<Rightarrow> ''pruned''
              | Some e \<Rightarrow> Error e)
      else ''ignored (requires pruning)'') \<and>
   Name (fst (pruneObject kc ns tr live prune dryRun)) = GetName live \<and>
   Kind (fst (pruneObject kc ns tr live prune dryRun)) = GetKind live \<and>
   Namespace (fst (pruneObject kc ns tr live prune dryRun)) = GetNamespace live"
  by (simp add: pruneObject_def Let_def split: option.splits)


subsection \<open>Discovery errors in processCreateTasks\<close>

lemma find_setResourceDetails:
  "find (\<lambda>r. Kind r = k \<and> Name r = n) (setResourceDetails d xs) =
     (if Kind d = k \<and> Name d = n then Some d else find (\<lambda>r. Kind r = k \<and> Name r = n) xs)"
  by (induction xs) auto

lemma recordDetails_simps [simp]:
  "trace (recordDetails d sc) = trace sc"
  "namespace (recordDetails d sc) = namespace sc"
  "kubectl (recordDetails d sc) = kubectl sc"
  "disco (recordDetails d sc) = disco sc"
  "proj (recordDetails d sc) = proj sc"
  "syncOp (recordDetails d sc) = syncOp sc"
  "opState (recordDetails d sc) = opState sc"
  "Resources (syncRes (recordDetails d sc)) = setResourceDetails d (Resources (syncRes sc))"
  "Hooks (syncRes (recordDetails d sc)) = Hooks (syncRes sc)"
  "Revision (syncRes (recordDetails d sc)) = Revision (syncRes sc)"
  by (simp_all add: recordDetails_def)

lemma failTasks_Nil [simp]: "failTasks msg [] sc = sc"
  by (simp add: failTasks_def)

lemma failTasks_Cons:
  "failTasks msg (t # ts) sc =
     failTasks msg ts
       (recordDetails \<lparr>Name = GetName (targetOf t), Kind = GetKind (targetOf t),
                        Namespace = namespace sc, Message = msg,
                        Status = ResourceDetailsSyncFailed\<rparr> sc)"
  by (simp add: failTasks_def)

lemma failTasks_unchanged [simp]:
  "trace (failTasks msg ts sc) = trace sc"
  "namespace (failTasks msg ts sc) = namespace sc"
  "kubectl (failTasks msg ts sc) = kubectl sc"
  "disco (failTasks msg ts sc) = disco sc"
  "proj (failTasks msg ts sc) = proj sc"
  "syncOp (failTasks msg ts sc) = syncOp sc"
  "opState (failTasks msg ts sc) = opState sc"
  "Hooks (syncRes (failTasks msg ts sc)) = Hooks (syncRes sc)"
  "Revision (syncRes (failTasks msg ts sc)) = Revision (syncRes sc)"
  by (induction ts arbitrary: sc; simp add: failTasks_Cons)+

lemma failTasks_find:
  "find (\<lambda>r. Kind r = k \<and> Name r = n) (Resources (syncRes (failTasks msg ts sc))) =
     (if \<exists>t \<in> set ts. GetKind (targetOf t) = k \<and> GetName (targetOf t) = n
      then Some \<lparr>Name = n, Kind = k, Namespace = namespace sc, Message = msg,
                  Status = ResourceDetailsSyncFailed\<rparr>
      else find (\<lambda>r. Kind r = k \<and> Name r = n) (Resources (syncRes sc)))"
proof (induction ts arbitrary: sc)
  case Nil
  then show ?case by simp
next
  case (Cons t ts)
  show ?case
    by (auto simp: failTasks_Cons Cons.IH find_setResourceDetails)
qed

lemma hasCRDOfGroupKind_iff:
  "hasCRDOfGroupKind h tasks grp kind \<longleftrightarrow>
     (\<exists>t \<in> set tasks. IsCRD h (targetOf t)
        \<and> NestedString (Object (targetOf t)) [''spec'', ''group''] = Some grp
        \<and> NestedString (Object (targetOf t)) [''spec'', ''names'', ''kind''] = Some kind)"
  by (induction tasks) (auto split: option.splits)

text \<open>
  C9. Let the discovery lookup of the kind of a task group return an error. When the call
  is a dry run, the error is a not-found error and the tasks with a target object contain
  a CustomResourceDefinition whose spec.group and spec.names.kind are the group and kind
  looked up, the group is skipped: the flag and the sync result are unchanged, and the
  lookup is the only call made. In every other case the flag is false afterwards and every
  task of the group has an entry under its kind and name with the status SyncFailed and
  the text of the error; again the lookup is the only call made.
\<close>

theorem C9_discovery_error:
  assumes "disco sc (trace sc) gvk = Inl err"
  shows "trace (snd (processCreateTasks h sched dryRun force update createTasks tasks gvk (ok, sc)))
           = trace sc @ [ServerResourceCall gvk (Inl err)] \<and>
         (if dryRun \<and> IsNotFound err \<and>
             (\<exists>t \<in> set createTasks. IsCRD h (targetOf t)
                \<and> NestedString (Object (targetOf t)) [''spec'', ''group''] = Some (Group gvk)
                \<and> NestedString (Object (targetOf t)) [''spec'', ''names'', ''kind'']
                     = Some (gvkKind gvk))
          then fst (processCreateTasks h sched dryRun force update createTasks tasks gvk (ok, sc)) = ok
             \<and> syncRes (snd (processCreateTasks h sched dryRun force update createTasks tasks gvk (ok, sc)))
                 = syncRes sc
          else \<not> fst (processCreateTasks h sched dryRun force update createTasks tasks gvk (ok, sc))
             \<and> (\<forall>t \<in> set tasks.
                   find (\<lambda>r. Kind r = GetKind (targetOf t) \<and> Name r = GetName (targetOf t))
                     (Resources (syncRes
                        (snd (processCreateTasks h sched dryRun force update createTasks tasks gvk (ok, sc)))))
                   = Some \<lparr>Name = GetName (targetOf t), Kind = GetKind (targetOf t),
                             Namespace = namespace sc, Message = Error err,
                             Status = ResourceDetailsSyncFailed\<rparr>))"
  using assms
  by (auto simp: processCreateTasks_def Let_def hasCRDOfGroupKind_iff failTasks_find)


theorem C9_discovery_error_witness:
  "disco (exampleContext (\<lambda>tr gvk. Inl (Err True ''not found''))) [] (GroupVersionKind fooObject)
     = Inl (Err True ''not found'') \<and>
   fst (processCreateTasks exampleHelpers inOrder True False False
          [\<lparr>liveObj = None, targetObj = Some crdObject\<rparr>,
           \<lparr>liveObj = None, targetObj = Some fooObject\<rparr>]
          [\<lparr>liveObj = None, targetObj = Some fooObject\<rparr>]
          (GroupVersionKind fooObject)
          (True, exampleContext (\<lambda>tr gvk. Inl (Err True ''not found'')))) \<and>
   Resources (syncRes (snd (processCreateTasks exampleHelpers inOrder True False False
          [\<lparr>liveObj = None, targetObj = Some crdObject\<rparr>,
           \<lparr>liveObj = None, targetObj = Some fooObject\<rparr>]
          [\<lparr>liveObj = None, targetObj = Some fooObject\<rparr>]
          (GroupVersionKind fooObject)
          (True, exampleContext (\<lambda>tr gvk. Inl (Err True ''not found'')))))) = []"
  using C9_discovery_error
    [of "exampleContext (\<lambda>tr gvk. Inl (Err True ''not found''))" "GroupVersionKind fooObject"
        "Err True ''not found''" exampleHelpers inOrder True False False
        "[\<lparr>liveObj = None, targetObj = Some crdObject\<rparr>,
          \<lparr>liveObj = None, targetObj = Some fooObject\<rparr>]"
        "[\<lparr>liveObj = None, targetObj = Some fooObject\<rparr>]" True]
  by (simp add: exampleContext_def exampleHelpers_def crdObject_def fooObject_def targetOf_def
      NestedString_def)

subsection \<open>Kinds the project does not permit\<close>

text \<open>
  X10. When the discovery lookup of the kind of a task group succeeds and the project does
  not permit the kind, no task of the group is applied: the lookup is the only call made,
  the flag is false afterwards, and every task of the group has an entry under its kind and
  name with the status SyncFailed and the message that the resource is not permitted in the
  project.
\<close>

theorem X10_not_permitted:
  assumes "disco sc (trace sc) gvk = Inr namespaced"
    and "\<not> IsResourcePermitted (proj sc) (Group gvk) (gvkKind gvk) namespaced"
  shows "trace (snd (processCreateTasks h sched dryRun force update createTasks tasks gvk (ok, sc)))
           = trace sc @ [ServerResourceCall gvk (Inr namespaced)] \<and>
         \<not> fst (processCreateTasks h sched dryRun force update createTasks tasks gvk (ok, sc)) \<and>
         (\<forall>t \<in> set tasks.
            find (\<lambda>r. Kind r = GetKind (targetOf t) \<and> Name r = GetName (targetOf t))
              (Resources (syncRes
                 (snd (processCreateTasks h sched dryRun force update createTasks tasks gvk (ok, sc)))))
            = Some \<lparr>Name = GetName (targetOf t), Kind = GetKind (targetOf t),
                      Namespace = namespace sc,
                      Message = ''Resource '' @ Group gvk @ '':'' @ gvkKind gvk
                                  @ '' is not permitted in project '' @ projName (proj sc) @ ''.'',
                      Status = ResourceDetailsSyncFailed\<rparr>)"
  using assms
  by (auto simp: processCreateTasks_def Let_def failTasks_find notPermitted_def)

theorem X10_not_permitted_witness:
  "disco ((exampleContext (\<lambda>tr gvk. Inr True))
            \<lparr>proj := \<lparr>projName = ''default'', IsResourcePermitted = (\<lambda>g k namespaced. False)\<rparr>\<rparr>)
     [] (GroupVersionKind fooObject) = Inr True \<and>
   processCreateTasks exampleHelpers callsFirst True False False
     [\<lparr>liveObj = None, targetObj = Some fooObject\<rparr>]
     [\<lparr>liveObj = None, targetObj = Some fooObject\<rparr>]
     (GroupVersionKind fooObject)
     (True, (exampleContext (\<lambda>tr gvk. Inr True))
            \<lparr>proj := \<lparr>projName = ''default'', IsResourcePermitted = (\<lambda>g k namespaced. False)\<rparr>\<rparr>) =
   (False, (exampleContext (\<lambda>tr gvk. Inr True))
      \<lparr>proj := \<lparr>projName = ''default'', IsResourcePermitted = (\<lambda>g k namespaced. False)\<rparr>,
       syncRes := \<lparr>Resources =
                     [\<lparr>Name = ''my-foo'', Kind = ''Foo'', Namespace = ''dummy-namespace'',
                       Message = ''Resource foo.io:Foo is not permitted in project default.'',
                       Status = ResourceDetailsSyncFailed\<rparr>],
                   Hooks = [], Revision = ''aaaa''\<rparr>,
       trace := [ServerResourceCall (GroupVersionKind fooObject) (Inr True)]\<rparr>)"
  using X10_not_permitted
    [of "(exampleContext (\<lambda>tr gvk. Inr True))
            \<lparr>proj := \<lparr>projName = ''default'', IsResourcePermitted = (\<lambda>g k namespaced. False)\<rparr>\<rparr>"
        "GroupVersionKind fooObject" True exampleHelpers callsFirst True False False
        "[\<lparr>liveObj = None, targetObj = Some fooObject\<rparr>]"
        "[\<lparr>liveObj = None, targetObj = Some fooObject\<rparr>]" True]
  by (simp add: processCreateTasks_def failTasks_def recordDetails_def notPermitted_def
      exampleContext_def fooObject_def targetOf_def Let_def)

subsection \<open>Waves under every valid schedule\<close>



lemma foldl_preserved:
  assumes "\<And>w a. P w \<Longrightarrow> P (f w a)" and "P w"
  shows "P (foldl f w s)"
  using assms(2) by (induction s arbitrary: w) (simp_all add: assms(1))

lemma runAction_Call:
  "runAction h update call tasks w (Call i) =
     (if i < length tasks
      then w\<lparr>waveCtx := (waveCtx w)\<lparr>trace := snd (call (trace (waveCtx w)) (tasks ! i))\<rparr>,
             waveResults := (waveResults w)(i := fst (call (trace (waveCtx w)) (tasks ! i)))\<rparr>
      else w)"
  by (simp add: runAction_def Let_def split: prod.splits)

lemma runAction_Record:
  "runAction h update call tasks w (Record i) =
     (case waveResults w i of
        None \<Rightarrow> w
      | Some resDetails \<Rightarrow>
          w\<lparr>waveFlag := (if \<not> Successful h (Status resDetails) then False else waveFlag w),
            waveCtx := (if update \<or> \<not> Successful h (Status resDetails)
                        then recordDetails resDetails (waveCtx w) else waveCtx w),
            waveResults := (waveResults w)(i := None)\<rparr>)"
  by (simp add: runAction_def)

lemma pinned_simps [simp]:
  "pinned (sc\<lparr>trace := tr\<rparr>) = pinned sc"
  "pinned (recordDetails d sc) = pinned sc"
  by (simp_all add: pinned_def)

lemma environment_simps [simp]:
  "environment (sc\<lparr>trace := tr\<rparr>) = environment sc"
  "environment (recordDetails d sc) = environment sc"
  "environment (failTasks msg ts sc) = environment sc"
  by (simp_all add: environment_def)

lemma recordDetails_unique: "uniqueResources sc \<Longrightarrow> uniqueResources (recordDetails d sc)"
  by (simp add: uniqueResources_def setResourceDetails_distinct)

lemma uniqueResources_trace [simp]: "uniqueResources (sc\<lparr>trace := tr\<rparr>) = uniqueResources sc"
  by (simp add: uniqueResources_def)

lemma runAction_pinned:
  "pinned (waveCtx (runAction h update call tasks w a)) = pinned (waveCtx w)"
  by (cases a) (simp_all add: runAction_Call runAction_Record split: option.splits)


lemma runAction_unique:
  "uniqueResources (waveCtx w) \<Longrightarrow> uniqueResources (waveCtx (runAction h update call tasks w a))"
  by (cases a) (simp_all add: runAction_Call runAction_Record recordDetails_unique split: option.splits)

lemma wave_pinned: "pinned (snd (wave h update call sched tasks st)) = pinned (snd st)"
proof -
  obtain ok sc where st: "st = (ok, sc)" by (cases st)
  have "pinned (waveCtx (foldl (runAction h update call tasks) w s)) = pinned sc"
    if "pinned (waveCtx w) = pinned sc" for w s
    by (rule foldl_preserved [of "\<lambda>w. pinned (waveCtx w) = pinned sc"])
       (simp_all add: runAction_pinned that)
  then show ?thesis by (simp add: wave_def st Let_def)
qed


lemma wave_unique:
  assumes "uniqueResources (snd st)"
  shows "uniqueResources (snd (wave h update call sched tasks st))"
proof -
  obtain ok sc where st: "st = (ok, sc)" by (cases st)
  have "uniqueResources (waveCtx (foldl (runAction h update call tasks) w s))"
    if "uniqueResources (waveCtx w)" for w s
    by (rule foldl_preserved [of "\<lambda>w. uniqueResources (waveCtx w)"])
       (simp_all add: runAction_unique that)
  then show ?thesis using assms by (simp add: wave_def st Let_def)
qed

























subsection \<open>The task groups of doApplySync\<close>







lemma taskGroups_nonempty: "g \<in> set (taskGroups xs) \<Longrightarrow> g \<noteq> []"
  by (induction xs rule: taskGroups.induct) auto




lemma progress_trace:
  "progress h st st' \<Longrightarrow> \<exists>new. trace (snd st') = trace (snd st) @ new"
  unfolding progress_def by blast


lemma groupLoop_invariant:
  assumes "\<And>g gvk st. P (snd st) \<Longrightarrow> P (snd (process g gvk st))" and "P (snd st)"
  shows "P (snd (groupLoop process xs g st))"
  using assms(2) by (induction xs arbitrary: g st) (simp_all add: assms(1))

lemma failTasks_unique: "uniqueResources sc \<Longrightarrow> uniqueResources (failTasks msg ts sc)"
  by (induction ts arbitrary: sc) (simp_all add: failTasks_Cons recordDetails_unique)










lemma failTasks_pinned [simp]: "pinned (failTasks msg ts sc) = pinned sc"
  by (simp add: pinned_def)

lemma processCreateTasks_pinned:
  "pinned (snd (processCreateTasks h sched dryRun force update createTasks tasks gvk st)) = pinned (snd st)"
proof -
  obtain ok sc where st: "st = (ok, sc)" by (cases st)
  show ?thesis
    unfolding st processCreateTasks_def
    by (simp add: Let_def wave_pinned split: sum.splits)
qed


lemma processCreateTasks_unique:
  assumes "uniqueResources (snd st)"
  shows "uniqueResources (snd (processCreateTasks h sched dryRun force update createTasks tasks gvk st))"
proof -
  obtain ok sc where st: "st = (ok, sc)" by (cases st)
  have u: "uniqueResources sc" using assms st by simp
  show ?thesis
    unfolding st processCreateTasks_def
    by (simp add: Let_def failTasks_unique wave_unique u split: sum.splits)
qed









lemma doApplySync_pinned:
  "pinned (snd (doApplySync h sched syncTasks dryRun force update sc)) = pinned sc"
  unfolding doApplySync_def Let_def
  by (rule groupLoop_invariant [of "\<lambda>c. pinned c = pinned sc"])
     (simp_all add: processCreateTasks_pinned wave_pinned)


lemma doApplySync_unique:
  assumes "uniqueResources sc"
  shows "uniqueResources (snd (doApplySync h sched syncTasks dryRun force update sc))"
  unfolding doApplySync_def Let_def
  by (intro groupLoop_invariant [of uniqueResources] processCreateTasks_unique wave_unique)
     (simp_all add: assms)








subsection \<open>The example schedulers are valid\<close>

lemma inOrder_from:
  "k \<le> n \<Longrightarrow> validSchedule n {..<k} {..<k} (concat (map (\<lambda>i. [Call i, Record i]) [k..<n]))"
proof (induction "n - k" arbitrary: k)
  case 0
  then show ?case by simp
next
  case (Suc d)
  then have k: "k < n" "d = n - Suc k" "Suc k \<le> n" by auto
  have "validSchedule n {..<Suc k} {..<Suc k} (concat (map (\<lambda>i. [Call i, Record i]) [Suc k..<n]))"
    using Suc.hyps(1) [OF k(2,3)] .
  then show ?case using k(1) by (simp add: upt_conv_Cons lessThan_Suc)
qed

lemma inOrder_valid: "validSchedule (length ts) {} {} (inOrder tr ts)"
  using inOrder_from [of 0 "length ts"] by (simp add: inOrder_def)






subsection \<open>doApplySync goes through every group\<close>






subsection \<open>doApplySync keeps the resource list unique\<close>

text \<open>
  X6. doApplySync keeps the resource list of the sync result unique by kind and name, under
  every schedule: every write goes through setResourceDetails.
\<close>

theorem X6_doApplySync_unique:
  assumes "distinct (map resKey (Resources (syncRes sc)))"
  shows "distinct (map resKey (Resources (syncRes (snd (doApplySync h sched syncTasks dryRun force update sc)))))"
  using doApplySync_unique [of sc h sched syncTasks dryRun force update] assms
  by (simp add: uniqueResources_def)

theorem X6_doApplySync_unique_witness:
  "distinct (map resKey (Resources (syncRes (exampleContext (\<lambda>tr gvk. Inr True))))) \<and>
   distinct (map resKey (Resources (syncRes (snd (doApplySync exampleHelpers callsFirst
       [applyTask ''ConfigMap'' ''a'', applyTask ''ConfigMap'' ''b'', applyTask ''Deployment'' ''web'']
       True False False (exampleContext (\<lambda>tr gvk. Inr True)))))))"
  using X6_doApplySync_unique
    [of "exampleContext (\<lambda>tr gvk. Inr True)" exampleHelpers callsFirst
        "[applyTask ''ConfigMap'' ''a'', applyTask ''ConfigMap'' ''b'', applyTask ''Deployment'' ''web'']"
        True False False]
  by (simp add: exampleContext_def)


subsection \<open>The kind sorter\<close>

lemma manifests_newKindSorter: "manifests (newKindSorter m s) = m"
  by (simp add: newKindSorter_def)

lemma ordering_Namespace: "ordering (newKindSorter m resourceOrder) ''Namespace'' = Some 0"
  by (simp add: newKindSorter_def resourceOrder_def)

lemma ordering_Deployment: "ordering (newKindSorter m resourceOrder) ''Deployment'' = Some 20"
  by (simp add: newKindSorter_def resourceOrder_def)

lemma ordering_Foo: "ordering (newKindSorter m resourceOrder) ''Foo'' = None"
  by (simp add: newKindSorter_def resourceOrder_def)

lemma foldl_ordering_notin:
  "key \<notin> set s \<Longrightarrow>
   foldl (\<lambda>ord (v, k). ord(k \<mapsto> v)) m0 (enumerate n s) key = m0 key"
  by (induction s arbitrary: n m0) auto

lemma foldl_ordering_nth:
  "distinct s \<Longrightarrow> i < length s \<Longrightarrow>
   foldl (\<lambda>ord (v, k). ord(k \<mapsto> v)) m0 (enumerate n s) (s ! i) = Some (n + i)"
proof (induction s arbitrary: n m0 i)
  case Nil
  then show ?case by simp
next
  case (Cons x xs)
  show ?case
  proof (cases i)
    case 0
    have "foldl (\<lambda>ord (v, k). ord(k \<mapsto> v)) (m0(x \<mapsto> n)) (enumerate (Suc n) xs) x
            = (m0(x \<mapsto> n)) x"
      using Cons.prems by (intro foldl_ordering_notin) simp
    then show ?thesis using 0 by (simp del: fun_upd_apply add: fun_upd_same)
  next
    case (Suc i')
    then show ?thesis using Cons.prems Cons.IH [where i = i' and n = "Suc n" and ?m0.0 = "m0(x \<mapsto> n)"]
      by (simp del: fun_upd_apply)
  qed
qed

lemma distinct_resourceOrder: "distinct resourceOrder"
  by (simp add: resourceOrder_def)

lemma length_resourceOrder: "length resourceOrder = 26"
  by (simp add: resourceOrder_def)

lemma ordering_known:
  "x < length resourceOrder \<Longrightarrow> ordering (newKindSorter m resourceOrder) (resourceOrder ! x) = Some x"
  using foldl_ordering_nth [OF distinct_resourceOrder, of x Map.empty 0]
  by (simp add: newKindSorter_def)

lemma ordering_unknown:
  "kind \<notin> set resourceOrder \<Longrightarrow> ordering (newKindSorter m resourceOrder) kind = None"
  using foldl_ordering_notin [of kind resourceOrder Map.empty 0]
  by (simp add: newKindSorter_def)

lemma nth_resourceOrder:
  "resourceOrder ! 0 = ''Namespace''" "resourceOrder ! 20 = ''Deployment''"
  "resourceOrder ! 4 = ''Secret''"
  by (simp_all add: resourceOrder_def)

lemma Foo_unknown: "''Foo'' \<notin> set resourceOrder" "''Bar'' \<notin> set resourceOrder"
  by (simp_all add: resourceOrder_def)

lemma Less_known_order:
  assumes "targetObj (m ! i) = Some a" and "targetObj (m ! j) = Some b"
    and "x < length resourceOrder" and "GetKind a = resourceOrder ! x"
    and "y < length resourceOrder" and "GetKind b = resourceOrder ! y"
  shows "Less (newKindSorter m resourceOrder) i j \<longleftrightarrow> x < y \<or> (x = y \<and> GetName a < GetName b)"
  using assms
  by (auto simp: Less_def manifests_newKindSorter mapIndex_def ordering_known)

text \<open>
  X1. For two tasks with target objects whose kinds stand at the positions x and y of
  resourceOrder, \<open>Less\<close> holds iff x is before y, or the kinds are the same and the name
  of the first is smaller.
\<close>

theorem X1_Less_known_kinds:
  assumes "targetObj (m ! i) = Some a" and "targetObj (m ! j) = Some b"
    and "x < length resourceOrder" and "GetKind a = resourceOrder ! x"
    and "y < length resourceOrder" and "GetKind b = resourceOrder ! y"
  shows "Less (newKindSorter m resourceOrder) i j \<longleftrightarrow> x < y \<or> (x = y \<and> GetName a < GetName b)"
  using assms
  by (auto simp: Less_def manifests_newKindSorter mapIndex_def ordering_known)

theorem X1_Less_known_kinds_witness:
  "Less (newKindSorter [applyTask ''Deployment'' ''d'', applyTask ''Namespace'' ''n''] resourceOrder) 1 0 \<and>
   \<not> Less (newKindSorter [applyTask ''Deployment'' ''d'', applyTask ''Namespace'' ''n''] resourceOrder) 0 1"
  using X1_Less_known_kinds
      [of "[applyTask ''Deployment'' ''d'', applyTask ''Namespace'' ''n'']" 1 "object ''Namespace'' ''n''"
          0 "object ''Deployment'' ''d''" 0 20]
    X1_Less_known_kinds
      [of "[applyTask ''Deployment'' ''d'', applyTask ''Namespace'' ''n'']" 0 "object ''Deployment'' ''d''"
          1 "object ''Namespace'' ''n''" 20 0]
  by (simp add: applyTask_def object_def nth_resourceOrder length_resourceOrder)

text \<open>
  X2. For two tasks with target objects whose kinds are both missing from resourceOrder,
  \<open>Less\<close> compares the kinds, and the names when the kinds are the same.
\<close>

theorem X2_Less_unknown_kinds:
  assumes "targetObj (m ! i) = Some a" and "targetObj (m ! j) = Some b"
    and "GetKind a \<notin> set resourceOrder" and "GetKind b \<notin> set resourceOrder"
  shows "Less (newKindSorter m resourceOrder) i j \<longleftrightarrow>
           GetKind a < GetKind b \<or> (GetKind a = GetKind b \<and> GetName a < GetName b)"
  using assms
  by (auto simp: Less_def manifests_newKindSorter mapIndex_def ordering_unknown)

theorem X2_Less_unknown_kinds_witness:
  "Less (newKindSorter [applyTask ''Foo'' ''z'', applyTask ''Bar'' ''a''] resourceOrder) 1 0 \<and>
   \<not> Less (newKindSorter [applyTask ''Foo'' ''z'', applyTask ''Bar'' ''a''] resourceOrder) 0 1"
  using X2_Less_unknown_kinds
      [of "[applyTask ''Foo'' ''z'', applyTask ''Bar'' ''a'']" 1 "object ''Bar'' ''a''"
          0 "object ''Foo'' ''z''"]
    X2_Less_unknown_kinds
      [of "[applyTask ''Foo'' ''z'', applyTask ''Bar'' ''a'']" 0 "object ''Foo'' ''z''"
          1 "object ''Bar'' ''a''"]
  by (simp add: applyTask_def object_def Foo_unknown)

text \<open>
  X3. A task whose kind is missing from resourceOrder is ranked after every task whose kind
  stands in resourceOrder at a position other than the first (every known kind but
  Namespace).
\<close>

theorem X3_Less_unknown_after_known:
  assumes "targetObj (m ! i) = Some a" and "targetObj (m ! j) = Some b"
    and "GetKind a \<notin> set resourceOrder"
    and "0 < y" and "y < length resourceOrder" and "GetKind b = resourceOrder ! y"
  shows "Less (newKindSorter m resourceOrder) j i \<and> \<not> Less (newKindSorter m resourceOrder) i j"
  using assms
  by (auto simp: Less_def manifests_newKindSorter mapIndex_def ordering_unknown ordering_known)

theorem X3_Less_unknown_after_known_witness:
  "Less (newKindSorter [applyTask ''Foo'' ''a'', applyTask ''Secret'' ''z''] resourceOrder) 1 0 \<and>
   \<not> Less (newKindSorter [applyTask ''Foo'' ''a'', applyTask ''Secret'' ''z''] resourceOrder) 0 1"
  using X3_Less_unknown_after_known
      [of "[applyTask ''Foo'' ''a'', applyTask ''Secret'' ''z'']" 0 "object ''Foo'' ''a''"
          1 "object ''Secret'' ''z''" 4]
  by (simp add: applyTask_def object_def Foo_unknown nth_resourceOrder length_resourceOrder)

text \<open>
  Against a Namespace task, a task of a kind missing from resourceOrder is ranked by the
  names alone: the lookup of the missing kind gives 0, the position of Namespace.
\<close>

lemma Less_unknown_against_Namespace:
  assumes "targetObj (m ! i) = Some a" and "targetObj (m ! j) = Some b"
    and "GetKind a \<notin> set resourceOrder" and "GetKind b = ''Namespace''"
  shows "(Less (newKindSorter m resourceOrder) i j \<longleftrightarrow> GetName a < GetName b) \<and>
         (Less (newKindSorter m resourceOrder) j i \<longleftrightarrow> GetName b < GetName a)"
  using assms
  by (auto simp: Less_def manifests_newKindSorter mapIndex_def ordering_unknown ordering_Namespace)

text \<open>
  X4. A task without target object (a prune task) is never \<open>Less\<close> than another task, and
  every task with a target object is \<open>Less\<close> than it: prune tasks sort last.
\<close>

theorem X4_Less_prune_last:
  assumes "targetObj (m ! i) = None"
  shows "\<not> Less (newKindSorter m resourceOrder) i j \<and>
         (Less (newKindSorter m resourceOrder) j i \<longleftrightarrow> targetObj (m ! j) \<noteq> None)"
  using assms by (cases "targetObj (m ! j)") (simp_all add: Less_def manifests_newKindSorter)

theorem X4_Less_prune_last_witness:
  "\<not> Less (newKindSorter [pruneTask ''Namespace'' ''a'', applyTask ''Foo'' ''z''] resourceOrder) 0 1 \<and>
   Less (newKindSorter [pruneTask ''Namespace'' ''a'', applyTask ''Foo'' ''z''] resourceOrder) 1 0"
  using X4_Less_prune_last [of "[pruneTask ''Namespace'' ''a'', applyTask ''Foo'' ''z'']" 0 1]
  by (simp add: applyTask_def pruneTask_def)

text \<open>
  X5. In a task list in which no task is \<open>Less\<close> than a task before it, two tasks with
  target objects of kinds in resourceOrder stand in the order of resourceOrder, and by
  name when their kinds are the same.
\<close>

theorem X5_sorted_known_kinds:
  assumes "\<forall>i j. i < j \<and> j < length m \<longrightarrow> \<not> Less (newKindSorter m resourceOrder) j i"
    and "i < j" and "j < length m"
    and "targetObj (m ! i) = Some a" and "targetObj (m ! j) = Some b"
    and "x < length resourceOrder" and "GetKind a = resourceOrder ! x"
    and "y < length resourceOrder" and "GetKind b = resourceOrder ! y"
  shows "x \<le> y \<and> (x = y \<longrightarrow> GetName a \<le> GetName b)"
proof -
  have "\<not> Less (newKindSorter m resourceOrder) j i"
    using assms(1,2,3) by blast
  then have "\<not> (y < x \<or> (y = x \<and> GetName b < GetName a))"
    using Less_known_order [OF assms(5,4) assms(8,9) assms(6,7)] by simp
  then show ?thesis by auto
qed

theorem X5_sorted_known_kinds_witness:
  "\<not> Less (newKindSorter [applyTask ''Deployment'' ''a'', applyTask ''Deployment'' ''b'']
          resourceOrder) 1 0 \<and>
   GetName (object ''Deployment'' ''a'') \<le> GetName (object ''Deployment'' ''b'')"
proof -
  let ?m = "[applyTask ''Deployment'' ''a'', applyTask ''Deployment'' ''b'']"
  have first: "\<not> Less (newKindSorter ?m resourceOrder) 1 0"
    by (simp add: Less_def mapIndex_def ordering_Deployment manifests_newKindSorter
        applyTask_def object_def)
  then have sorted: "\<forall>i j. i < j \<and> j < length ?m \<longrightarrow> \<not> Less (newKindSorter ?m resourceOrder) j i"
    by (auto simp: less_Suc_eq)
  have "(20::nat) \<le> 20 \<and>
        ((20::nat) = 20 \<longrightarrow> GetName (object ''Deployment'' ''a'') \<le> GetName (object ''Deployment'' ''b''))"
    by (rule X5_sorted_known_kinds [OF sorted, of 0 1])
       (simp_all add: applyTask_def object_def nth_resourceOrder length_resourceOrder)
  then show ?thesis using first by blast
qed

lemma ordering_cases:
  obtains (known) x where "x < length resourceOrder" "kind = resourceOrder ! x"
      "ordering (newKindSorter m resourceOrder) kind = Some x"
  | (unknown) "kind \<notin> set resourceOrder" "ordering (newKindSorter m resourceOrder) kind = None"
proof (cases "kind \<in> set resourceOrder")
  case True
  then obtain x where "x < length resourceOrder" "resourceOrder ! x = kind"
    by (auto simp: in_set_conv_nth)
  then show ?thesis using known [of x] ordering_known [of x m] by auto
next
  case False
  then show ?thesis using unknown ordering_unknown [of kind m] by auto
qed

text \<open>
  X9. Whenever \<open>Less\<close> compares two tasks with target objects that are not a Namespace
  task and a task of a kind outside resourceOrder (both kinds are in resourceOrder, or
  neither is Namespace), it is the lexicographic comparison of their ranks: canonical
  position, with the kinds outside the order last and ordered by kind, then name.
\<close>

theorem X9_Less_rank:
  assumes "targetObj (m ! i) = Some a" and "targetObj (m ! j) = Some b"
    and "(GetKind a \<in> set resourceOrder \<and> GetKind b \<in> set resourceOrder)
         \<or> (GetKind a \<noteq> ''Namespace'' \<and> GetKind b \<noteq> ''Namespace'')"
  shows "Less (newKindSorter m resourceOrder) i j \<longleftrightarrow>
         taskRank (newKindSorter m resourceOrder) a < taskRank (newKindSorter m resourceOrder) b"
proof (cases "GetKind a" rule: ordering_cases [where m = m])
  case ka: (known x)
  show ?thesis
  proof (cases "GetKind b" rule: ordering_cases [where m = m])
    case kb: (known y)
    show ?thesis
      using assms(1,2) ka kb
      by (auto simp: Less_def manifests_newKindSorter mapIndex_def taskRank_def)
  next
    case kb: unknown
    have "x \<noteq> 0"
    proof
      assume "x = 0"
      then have "GetKind a = ''Namespace''" using ka(2) by (simp add: nth_resourceOrder)
      moreover have "GetKind a \<noteq> ''Namespace''" using assms(3) kb(1) by blast
      ultimately show False by simp
    qed
    then show ?thesis
      using assms(1,2) ka kb
      by (auto simp: Less_def manifests_newKindSorter mapIndex_def taskRank_def)
  qed
next
  case ka: unknown
  show ?thesis
  proof (cases "GetKind b" rule: ordering_cases [where m = m])
    case kb: (known y)
    have "y \<noteq> 0"
    proof
      assume "y = 0"
      then have "GetKind b = ''Namespace''" using kb(2) by (simp add: nth_resourceOrder)
      moreover have "GetKind b \<noteq> ''Namespace''" using assms(3) ka(1) by blast
      ultimately show False by simp
    qed
    then show ?thesis
      using assms(1,2) ka kb
      by (auto simp: Less_def manifests_newKindSorter mapIndex_def taskRank_def)
  next
    case kb: unknown
    show ?thesis
      using assms(1,2) ka kb
      by (auto simp: Less_def manifests_newKindSorter mapIndex_def taskRank_def)
  qed
qed

theorem X9_Less_rank_witness:
  "Less (newKindSorter [applyTask ''Foo'' ''a'', applyTask ''Secret'' ''z''] resourceOrder) 1 0 \<and>
   taskRank (newKindSorter [applyTask ''Foo'' ''a'', applyTask ''Secret'' ''z''] resourceOrder)
       (object ''Secret'' ''z'')
     < taskRank (newKindSorter [applyTask ''Foo'' ''a'', applyTask ''Secret'' ''z''] resourceOrder)
       (object ''Foo'' ''a'')"
proof -
  let ?m = "[applyTask ''Foo'' ''a'', applyTask ''Secret'' ''z'']"
  have ord: "ordering (newKindSorter ?m resourceOrder) ''Secret'' = Some 4"
    "ordering (newKindSorter ?m resourceOrder) ''Foo'' = None"
    using ordering_known [of 4 ?m] ordering_unknown [of "''Foo''" ?m]
    by (simp_all add: nth_resourceOrder length_resourceOrder Foo_unknown)
  have rank: "taskRank (newKindSorter ?m resourceOrder) (object ''Secret'' ''z'')
          < taskRank (newKindSorter ?m resourceOrder) (object ''Foo'' ''a'')"
    by (simp add: taskRank_def object_def ord length_resourceOrder)
  have "Less (newKindSorter ?m resourceOrder) 1 0 \<longleftrightarrow>
        taskRank (newKindSorter ?m resourceOrder) (object ''Secret'' ''z'')
          < taskRank (newKindSorter ?m resourceOrder) (object ''Foo'' ''a'')"
    by (rule X9_Less_rank) (simp_all add: applyTask_def object_def)
  then show ?thesis using rank by simp
qed


text \<open>
  C2 says that a task whose kind is not in resourceOrder sorts after every task whose kind
  is. The sorter at the tasks Namespace/b and Foo/a: the kind Foo is not in resourceOrder,
  so its lookup gives the zero value 0, which is the index of Namespace;
  \<open>first == second\<close> holds and \<open>Less\<close> compares the names. The sorter therefore ranks
  the task of the unknown kind before the Namespace task, and sorting the two puts Foo/a
  first. (Against every other known kind, and among unknown kinds, the sorter does what C2
  says: X2 and X3.)
\<close>

theorem C2_unknown_kind_before_Namespace:
  "mapIndex (ordering (newKindSorter [applyTask ''Namespace'' ''b'', applyTask ''Foo'' ''a''] resourceOrder)) ''Foo''
     = (0, False) \<and>
   mapIndex (ordering (newKindSorter [applyTask ''Namespace'' ''b'', applyTask ''Foo'' ''a''] resourceOrder)) ''Namespace''
     = (0, True) \<and>
   Less (newKindSorter [applyTask ''Namespace'' ''b'', applyTask ''Foo'' ''a''] resourceOrder) 1 0 \<and>
   \<not> Less (newKindSorter [applyTask ''Namespace'' ''b'', applyTask ''Foo'' ''a''] resourceOrder) 0 1 \<and>
   manifests (insertionSort
       (newKindSorter [applyTask ''Namespace'' ''b'', applyTask ''Foo'' ''a''] resourceOrder))
     = [applyTask ''Foo'' ''a'', applyTask ''Namespace'' ''b'']"
  by (simp add: insertionSort_def Len_def Less_def Swap_def mapIndex_def ordering_Namespace
      ordering_Foo manifests_newKindSorter applyTask_def object_def)

text \<open>
  C3 says that after the sort the tasks of known kinds stand in the order of resourceOrder,
  a Namespace task before a Deployment task. The sort at the tasks Deployment/d, Foo/a,
  Namespace/b in this order: no task is \<open>Less\<close> than its left neighbour (Foo/a is of an
  unknown kind, and Namespace/b against Foo/a is decided by the names), so the insertion
  sort swaps nothing, and after the sort the Deployment task still precedes the Namespace
  task, although \<open>Less\<close> ranks Namespace/b before Deployment/d; the three tasks form a
  cycle of \<open>Less\<close>. (Where no task is \<open>Less\<close> than an earlier one, the known kinds do
  stand in order: X5.)
\<close>

theorem C3_Deployment_before_Namespace:
  "\<not> Less (newKindSorter [applyTask ''Deployment'' ''d'', applyTask ''Foo'' ''a'',
        applyTask ''Namespace'' ''b''] resourceOrder) 1 0 \<and>
   \<not> Less (newKindSorter [applyTask ''Deployment'' ''d'', applyTask ''Foo'' ''a'',
        applyTask ''Namespace'' ''b''] resourceOrder) 2 1 \<and>
   Less (newKindSorter [applyTask ''Deployment'' ''d'', applyTask ''Foo'' ''a'',
        applyTask ''Namespace'' ''b''] resourceOrder) 2 0 \<and>
   Less (newKindSorter [applyTask ''Deployment'' ''d'', applyTask ''Foo'' ''a'',
        applyTask ''Namespace'' ''b''] resourceOrder) 0 1 \<and>
   Less (newKindSorter [applyTask ''Deployment'' ''d'', applyTask ''Foo'' ''a'',
        applyTask ''Namespace'' ''b''] resourceOrder) 1 2 \<and>
   manifests (insertionSort
       (newKindSorter [applyTask ''Deployment'' ''d'', applyTask ''Foo'' ''a'',
          applyTask ''Namespace'' ''b''] resourceOrder))
     = [applyTask ''Deployment'' ''d'', applyTask ''Foo'' ''a'', applyTask ''Namespace'' ''b'']"
  by (simp add: insertionSort_def Len_def Less_def Swap_def mapIndex_def ordering_Namespace
      ordering_Foo ordering_Deployment manifests_newKindSorter applyTask_def object_def
      eval_nat_numeral)

subsection \<open>SyncAppState\<close>

lemma doApplySync_Revision:
  "Revision (syncRes (snd (doApplySync h sched syncTasks dryRun force update sc))) = Revision (syncRes sc)"
  "opState (snd (doApplySync h sched syncTasks dryRun force update sc)) = opState sc"
  using doApplySync_pinned [of h sched syncTasks dryRun force update sc] by (simp_all add: pinned_def)

lemma setOperationPhase_simps [simp]:
  "syncRes (setOperationPhase phase message sc) = syncRes sc"
  "trace (setOperationPhase phase message sc) = trace sc"
  "syncOp (setOperationPhase phase message sc) = syncOp sc"
  "Operation (opState (setOperationPhase phase message sc)) = Operation (opState sc)"
  by (simp_all add: setOperationPhase_def)

lemma withOutcome_simps [simp]:
  "Revision (syncRes (withOutcome out sc)) = Revision (syncRes sc)"
  "trace (withOutcome out sc) = trace sc @ outCalls out"
  "Operation (opState (withOutcome out sc)) = Operation (opState sc)"
  by (simp_all add: withOutcome_def)

lemma syncStrategy_Revision:
  "Revision (syncRes (syncStrategy h sched hp syncTasks sc)) = Revision (syncRes sc) \<and>
   Operation (opState (syncStrategy h sched hp syncTasks sc)) = Operation (opState sc)"
proof -
  have "Revision (syncRes (snd (doApplySync h sched syncTasks False f True (sc\<lparr>syncOp := x\<rparr>))))
          = Revision (syncRes sc) \<and>
        opState (snd (doApplySync h sched syncTasks False f True (sc\<lparr>syncOp := x\<rparr>))) = opState sc" for f x
    using doApplySync_Revision [of h sched syncTasks False f True "sc\<lparr>syncOp := x\<rparr>"] by simp
  then show ?thesis
    unfolding syncStrategy_def Let_def
    by (auto split: option.splits sum.splits prod.splits) (metis snd_conv)+
qed


lemma generateSyncTasks_context:
  "syncRes (fst (generateSyncTasks h srt sc)) = syncRes sc"
  "trace (fst (generateSyncTasks h srt sc)) = trace sc"
  by (simp_all add: generateSyncTasks_def split: sum.splits)

lemma generateSyncTasks_Operation:
  "Operation (opState (fst (generateSyncTasks h srt sc))) = Operation (opState sc)"
  by (simp add: generateSyncTasks_def split: sum.splits)

lemma sync_Revision:
  "Revision (syncRes (sync h sched srt hp sc)) = Revision (syncRes sc) \<and>
   Operation (opState (sync h sched srt hp sc)) = Operation (opState sc)"
proof -
  obtain sc0 syncTasks successful where g: "generateSyncTasks h srt sc = (sc0, syncTasks, successful)"
    by (cases "generateSyncTasks h srt sc") auto
  have sc0: "syncRes sc0 = syncRes sc" "Operation (opState sc0) = Operation (opState sc)"
    using generateSyncTasks_context(1) [of h srt sc] generateSyncTasks_Operation [of h srt sc] g
    by simp_all
  obtain ok sc1 where d: "doApplySync h sched syncTasks True False (DryRun (syncOp sc0)) sc0 = (ok, sc1)"
    by (cases "doApplySync h sched syncTasks True False (DryRun (syncOp sc0)) sc0") auto
  have sc1: "Revision (syncRes sc1) = Revision (syncRes sc)"
    "Operation (opState sc1) = Operation (opState sc)"
    using doApplySync_Revision [of h sched syncTasks True False "DryRun (syncOp sc0)" sc0] d sc0 by simp_all
  show ?thesis
    unfolding sync_def g
    by (simp add: d sc0 sc1 syncStrategy_Revision)
qed


lemma failOperation_simps [simp]:
  "SyncResult (failOperation message state) = SyncResult state"
  "Operation (failOperation message state) = Operation state"
  "Phase (failOperation message state) = OperationError"
  "StateMessage (failOperation message state) = message"
  by (simp_all add: failOperation_def)

lemma recordHistory_result:
  "SyncResult (fst (recordHistory s app operation info sc)) = Some (syncRes sc)"
  by (simp add: recordHistory_def Let_def split: option.splits)



lemma runSync_Revision:
  assumes "SyncResult state = Some result"
  shows "\<exists>r. SyncResult (fst (runSync s tr app state operation result cmp info states)) = Some r
              \<and> Revision r = Revision result"
  using assms
  unfolding runSync_def Let_def
  by (auto simp: recordHistory_result sync_Revision split: sum.splits option.splits)




text \<open>
  C10. When the operation of the state carries no sync request, SyncAppState only sets the
  phase Failed and the message "Invalid operation request: no operation specified": the
  sync result of the state is as before (none is created), and the trace is unchanged, so
  neither the comparator nor the cluster was called.
\<close>

theorem C10_no_operation_specified:
  "Sync (Operation state) = None \<Longrightarrow>
   SyncAppState s tr app state =
     (state\<lparr>Phase := OperationFailed,
            StateMessage := ''Invalid operation request: no operation specified''\<rparr>, tr)"
  by (simp add: SyncAppState_def)


theorem C10_no_operation_specified_witness:
  "Sync (Operation (exampleState\<lparr>Operation := \<lparr>Sync = None\<rparr>\<rparr>)) = None \<and>
   SyncAppState (exampleManager ''aaaa'') [] exampleApp (exampleState\<lparr>Operation := \<lparr>Sync = None\<rparr>\<rparr>) =
     (\<lparr>Operation = \<lparr>Sync = None\<rparr>, Phase = OperationFailed,
       StateMessage = ''Invalid operation request: no operation specified'',
       SyncResult = None\<rparr>, [])"
  using C10_no_operation_specified
    [of "exampleState\<lparr>Operation := \<lparr>Sync = None\<rparr>\<rparr>" "exampleManager ''aaaa''" "[]" exampleApp]
  by (simp add: exampleState_def)





text \<open>
  X7. On every invocation that passes the comparison (the comparator returns no error and
  no error condition), SyncAppState ends with a sync result whose revision is the one the
  comparator reported for the requested revision; on first entry this is the resolution
  of the revision of the operation.
\<close>

theorem X7_stores_reported_revision:
  assumes "Sync (Operation state) = Some operation"
    and "CompareAppState s tr app (requestedRevision state operation) (ParameterOverrides operation)
           = Inr (cmp, info, states, conditions)"
    and "filter (IsError s) conditions = []"
  shows "\<exists>r. SyncResult (fst (SyncAppState s tr app state)) = Some r
            \<and> Revision r = manifestRevision info"
proof -
  let ?result = "case SyncResult state of Some r \<Rightarrow> r
                 | None \<Rightarrow> \<lparr>Resources = [], Hooks = [], Revision = []\<rparr>"
  let ?result1 = "?result\<lparr>Revision := manifestRevision info\<rparr>"
  let ?tr1 = "tr @ [CompareAppStateCall (requestedRevision state operation) (ParameterOverrides operation)]"
  have rev: "(if (case SyncResult state of Some r \<Rightarrow> Revision r | None \<Rightarrow> []) = []
              then opRevision operation
              else (case SyncResult state of Some r \<Rightarrow> Revision r | None \<Rightarrow> []))
             = requestedRevision state operation"
    by (simp add: requestedRevision_def split: option.splits)
  have "SyncAppState s tr app state =
          runSync s ?tr1 app (state\<lparr>SyncResult := Some ?result1\<rparr>) operation ?result1 cmp info states"
    using assms by (simp add: SyncAppState_def Let_def rev)
  moreover have "\<exists>r. SyncResult (fst (runSync s ?tr1 app (state\<lparr>SyncResult := Some ?result1\<rparr>)
                        operation ?result1 cmp info states)) = Some r
                    \<and> Revision r = Revision ?result1"
    by (rule runSync_Revision) simp
  ultimately show ?thesis by simp
qed

theorem X7_stores_reported_revision_witness:
  "\<exists>r. SyncResult (fst (SyncAppState (exampleManager ''aaaa'') [] exampleApp exampleState)) = Some r
       \<and> Revision r = ''aaaa''"
  using X7_stores_reported_revision
    [of exampleState exampleOperation "exampleManager ''aaaa''" "[]" exampleApp
        "\<lparr>compStatus = ComparisonStatusSynced, compRevision = ''aaaa''\<rparr>"
        "\<lparr>manifestRevision = ''aaaa'', Params = []\<rparr>" "[]" "[]"]
  by (simp add: exampleState_def exampleManager_def exampleOperation_def requestedRevision_def)

text \<open>
  X8. setOperationPhase with the phase and the message the operation already has leaves
  the sync context as it is.
\<close>

theorem X8_setOperationPhase_unchanged:
  "setOperationPhase (Phase (opState sc)) (StateMessage (opState sc)) sc = sc"
  by (simp add: setOperationPhase_def)


section \<open>Properties of the models made from the specification\<close>

text \<open>
  C5. When the most recent sync result of the application has the revision of the current
  comparison and its operation has the parameter overrides of the application, as sets of
  (name, value) pairs, autoSync returns the application as it is, whatever the phase of
  that operation: no operation is set, so an application without operation stays without
  one. When moreover auto-sync is enabled, the comparison is not Synced and that operation
  has the phase Failed, autoSync returns a condition.
\<close>

theorem C5_autoSync_no_thrash:
  assumes "statusOperationState app = Some st"
    and "SyncResult st = Some r"
    and "Sync (Operation st) = Some operation"
    and "Revision r = compRevision cmp"
    and "sameOverrides (ParameterOverrides operation) (ComponentParameterOverrides app)"
  shows "snd (autoSync app cmp) = app \<and>
         (if autoSyncEnabled app \<and> compStatus cmp \<noteq> ComparisonStatusSynced \<and> Phase st = OperationFailed
          then fst (autoSync app cmp) = Some ''previous sync to this revision failed''
          else fst (autoSync app cmp) = None)"
  using assms by (simp add: autoSync_def sameAsLastSync_def)

theorem C5_autoSync_no_thrash_witness:
  "sameOverrides
     [\<lparr>Component = ''web'', paramName = ''a'', paramValue = ''1''\<rparr>,
      \<lparr>Component = ''web'', paramName = ''b'', paramValue = ''2''\<rparr>]
     [\<lparr>Component = ''web'', paramName = ''b'', paramValue = ''2''\<rparr>,
      \<lparr>Component = ''web'', paramName = ''a'', paramValue = ''1''\<rparr>] \<and>
   autoSync
     (exampleApp\<lparr>ComponentParameterOverrides :=
         [\<lparr>Component = ''web'', paramName = ''b'', paramValue = ''2''\<rparr>,
          \<lparr>Component = ''web'', paramName = ''a'', paramValue = ''1''\<rparr>],
       statusOperationState := Some
         \<lparr>Operation = \<lparr>Sync = Some (exampleOperation\<lparr>ParameterOverrides :=
              [\<lparr>Component = ''web'', paramName = ''a'', paramValue = ''1''\<rparr>,
               \<lparr>Component = ''web'', paramName = ''b'', paramValue = ''2''\<rparr>]\<rparr>)\<rparr>,
          Phase = OperationFailed, StateMessage = ''one or more objects failed to apply'',
          SyncResult = Some \<lparr>Resources = [], Hooks = [], Revision = ''bbbb''\<rparr>\<rparr>\<rparr>)
     \<lparr>compStatus = ComparisonStatusOutOfSync, compRevision = ''bbbb''\<rparr>
   = (Some ''previous sync to this revision failed'',
      exampleApp\<lparr>ComponentParameterOverrides :=
         [\<lparr>Component = ''web'', paramName = ''b'', paramValue = ''2''\<rparr>,
          \<lparr>Component = ''web'', paramName = ''a'', paramValue = ''1''\<rparr>],
       statusOperationState := Some
         \<lparr>Operation = \<lparr>Sync = Some (exampleOperation\<lparr>ParameterOverrides :=
              [\<lparr>Component = ''web'', paramName = ''a'', paramValue = ''1''\<rparr>,
               \<lparr>Component = ''web'', paramName = ''b'', paramValue = ''2''\<rparr>]\<rparr>)\<rparr>,
          Phase = OperationFailed, StateMessage = ''one or more objects failed to apply'',
          SyncResult = Some \<lparr>Resources = [], Hooks = [], Revision = ''bbbb''\<rparr>\<rparr>\<rparr>)"
proof -
  let ?old = "[\<lparr>Component = ''web'', paramName = ''a'', paramValue = ''1''\<rparr>,
               \<lparr>Component = ''web'', paramName = ''b'', paramValue = ''2''\<rparr>]"
  let ?new = "[\<lparr>Component = ''web'', paramName = ''b'', paramValue = ''2''\<rparr>,
               \<lparr>Component = ''web'', paramName = ''a'', paramValue = ''1''\<rparr>]"
  let ?st = "\<lparr>Operation = \<lparr>Sync = Some (exampleOperation\<lparr>ParameterOverrides := ?old\<rparr>)\<rparr>,
          Phase = OperationFailed, StateMessage = ''one or more objects failed to apply'',
          SyncResult = Some \<lparr>Resources = [], Hooks = [], Revision = ''bbbb''\<rparr>\<rparr>"
  let ?app = "exampleApp\<lparr>ComponentParameterOverrides := ?new, statusOperationState := Some ?st\<rparr>"
  let ?cmp = "\<lparr>compStatus = ComparisonStatusOutOfSync, compRevision = ''bbbb''\<rparr>"
  have same: "sameOverrides ?old ?new"
    by (auto simp: sameOverrides_def)
  have enabled: "autoSyncEnabled ?app"
    by (simp add: autoSyncEnabled_def exampleApp_def)
  have "snd (autoSync ?app ?cmp) = ?app \<and>
        fst (autoSync ?app ?cmp) = Some ''previous sync to this revision failed''"
    using C5_autoSync_no_thrash
      [of ?app ?st "\<lparr>Resources = [], Hooks = [], Revision = ''bbbb''\<rparr>"
          "exampleOperation\<lparr>ParameterOverrides := ?old\<rparr>" ?cmp]
      same enabled
    by simp
  then have "autoSync ?app ?cmp = (Some ''previous sync to this revision failed'', ?app)"
    by (simp add: prod_eq_iff)
  then show ?thesis using same by simp
qed

text \<open>
  C6. For every object x, the two-way diff of no desired object against the live object x
  is not modified, and the two-way diff of the desired object x against no live object is
  modified.
\<close>

theorem C6_twoWayDiff_nil:
  "modified (twoWayDiff norm None (Some x)) = False \<and>
   modified (twoWayDiff norm (Some x) None) = True"
  by (simp add: twoWayDiff_def)


end
